theory Spec2Isabelle
  imports Complex_Main "HOL-Library.Log_Nat"
begin

section \<open>The rectangular-pulse example script \<open>GRM_for_linear_LC.py\<close>\<close>

text \<open>
  The script assembles a chromatography process from objects of an external modelling
  library, then (when run as the main module) simulates it and sweeps the axial
  dispersion over six Peclet numbers, plotting each result.

  The objects keep the decimal numbers the script writes, as exact rationals, and the
  assembly and the sweep are evaluated on them; this is exact arithmetic, which agrees
  with Python at the script's own literals up to the rounding of doubles. What Python
  really computes at lines 124 and 143, in IEEE binary64 with rounding to nearest,
  overflow to \<open>inf\<close> and \<open>OverflowError\<close> for an int beyond the range of doubles, is
  modelled separately below (\<open>assign_dispersion_double\<close>, \<open>peclet_number_double\<close>); the
  claim about every positive Peclet number is settled on that model.

  An attribute that has not been assigned yet holds Python's \<open>None\<close>, modelled as
  \<open>None\<close> of an option type. Exceptions are values of type \<open>error\<close>.
\<close>

subsection \<open>Errors and Python arithmetic\<close>

datatype error = ZeroDivisionError | IndexError | TypeError | OverflowError | SimulatorError

text \<open>Reading a numeric attribute for arithmetic: \<open>None\<close> raises TypeError.\<close>

definition num_attr :: "'a option \<Rightarrow> error + 'a" where
  "num_attr v = (case v of None \<Rightarrow> Inl TypeError | Some x \<Rightarrow> Inr x)"

text \<open>
  Python's true division \<open>a / b\<close> in exact arithmetic: no rounding and no overflow. The
  binary64 division is \<open>float_truediv\<close> below.
\<close>

definition py_truediv :: "rat \<Rightarrow> rat \<Rightarrow> error + rat" where
  "py_truediv a b = (if b = 0 then Inl ZeroDivisionError else Inr (a / b))"

text \<open>Python's \<open>xs[i]\<close> for a non-negative index.\<close>

definition py_index :: "'a list \<Rightarrow> nat \<Rightarrow> error + 'a" where
  "py_index xs i = (if i < length xs then Inr (xs ! i) else Inl IndexError)"

text \<open>\<open>str(n)\<close> for a Python int, as used by the f-string of the panel title.\<close>

definition digit_char :: "nat \<Rightarrow> char" where
  "digit_char d = ''0123456789'' ! d"

fun str_nat :: "nat \<Rightarrow> string" where
  "str_nat n = (if n < 10 then [digit_char n] else str_nat (n div 10) @ [digit_char (n mod 10)])"

declare str_nat.simps [simp del]

definition str_int :: "int \<Rightarrow> string" where
  "str_int i = (if i < 0 then CHR ''-'' # str_nat (nat (- i)) else str_nat (nat i))"

subsection \<open>The library's objects, as far as the script touches them\<close>

record ComponentSystem =
  components :: "string list"

definition ComponentSystem_init :: ComponentSystem where
  "ComponentSystem_init = \<lparr>components = []\<rparr>"

definition add_component :: "string \<Rightarrow> ComponentSystem \<Rightarrow> ComponentSystem" where
  "add_component nm cs = cs\<lparr>components := components cs @ [nm]\<rparr>"

text \<open>Every binding model and unit operation is created from a component system and a name.\<close>

record component_object =
  name :: string
  component_system_attr :: ComponentSystem

definition n_comp :: "'a component_object_scheme \<Rightarrow> nat" where
  "n_comp obj = length (components (component_system_attr obj))"

record Linear = component_object +
  is_kinetic :: "bool option"
  adsorption_rate :: "rat list option"
  desorption_rate :: "rat list option"

definition Linear_init :: "ComponentSystem \<Rightarrow> string \<Rightarrow> Linear" where
  "Linear_init cs nm =
     \<lparr>name = nm, component_system_attr = cs,
      is_kinetic = None, adsorption_rate = None, desorption_rate = None\<rparr>"

text \<open>
  Modelled from the spec: the library's count of bound states of a binding model is not
  part of the repository. The spec gives it as 1 for the one-species system of the
  script ("\<open>surface_diffusion\<close> has length \<open>n_bound_states\<close> (here 1)") and sizes the
  binding model's arrays per species; the linear model is taken to have one bound state
  per species.
\<close>

definition n_bound_states_bm :: "Linear \<Rightarrow> nat" where
  "n_bound_states_bm bm = n_comp bm"

record GeneralRateModel = component_object +
  binding_model_attr :: "Linear option"
  length_attr :: "rat option"
  cross_section_area :: "rat option"
  bed_porosity :: "rat option"
  particle_radius :: "rat option"
  particle_porosity :: "rat option"
  axial_dispersion :: "rat list option"
  film_diffusion :: "rat list option"
  pore_diffusion :: "rat list option"
  surface_diffusion :: "rat list option"
  c :: "rat list option"
  q :: "rat list option"

definition GeneralRateModel_init :: "ComponentSystem \<Rightarrow> string \<Rightarrow> GeneralRateModel" where
  "GeneralRateModel_init cs nm =
     \<lparr>name = nm, component_system_attr = cs,
      binding_model_attr = None, length_attr = None, cross_section_area = None,
      bed_porosity = None, particle_radius = None, particle_porosity = None,
      axial_dispersion = None, film_diffusion = None, pore_diffusion = None,
      surface_diffusion = None, c = None, q = None\<rparr>"

text \<open>A unit without a binding model has no bound states.\<close>

definition n_bound_states :: "GeneralRateModel \<Rightarrow> nat" where
  "n_bound_states u =
     (case binding_model_attr u of None \<Rightarrow> 0 | Some bm \<Rightarrow> n_bound_states_bm bm)"

text \<open>
  The library keeps \<open>axial_dispersion\<close> as one entry per species: line 71 and line 143
  assign a number, line 124 reads entry \<open>[0]\<close> of the attribute.
\<close>

definition set_axial_dispersion :: "rat \<Rightarrow> GeneralRateModel \<Rightarrow> GeneralRateModel" where
  "set_axial_dispersion d u = u\<lparr>axial_dispersion := Some (replicate (n_comp u) d)\<rparr>"

record Inlet = component_object +
  flow_rate :: "rat option"

definition Inlet_init :: "ComponentSystem \<Rightarrow> string \<Rightarrow> Inlet" where
  "Inlet_init cs nm = \<lparr>name = nm, component_system_attr = cs, flow_rate = None\<rparr>"

record Outlet = component_object +
  outlet_marker :: unit

definition Outlet_init :: "ComponentSystem \<Rightarrow> string \<Rightarrow> Outlet" where
  "Outlet_init cs nm = \<lparr>name = nm, component_system_attr = cs, outlet_marker = ()\<rparr>"

text \<open>
  The flow sheet holds references to the unit objects, not copies: the module variables
  \<open>inlet\<close>, \<open>column\<close> and \<open>outlet\<close> stay bound to the same objects, so an assignment to
  \<open>column.axial_dispersion\<close> after \<open>add_unit\<close> is seen through the flow sheet.
\<close>

datatype unit_ref = inlet_ref | column_ref | outlet_ref

record FlowSheet =
  fs_component_system :: ComponentSystem
  units :: "unit_ref list"
  connections :: "(unit_ref \<times> unit_ref) list"
  product_outlets :: "unit_ref list"

definition FlowSheet_init :: "ComponentSystem \<Rightarrow> FlowSheet" where
  "FlowSheet_init cs =
     \<lparr>fs_component_system = cs, units = [], connections = [], product_outlets = []\<rparr>"

definition add_unit :: "unit_ref \<Rightarrow> bool \<Rightarrow> FlowSheet \<Rightarrow> FlowSheet" where
  "add_unit u product_outlet fs =
     fs\<lparr>units := units fs @ [u],
        product_outlets := product_outlets fs @ (if product_outlet then [u] else [])\<rparr>"

definition add_connection :: "unit_ref \<Rightarrow> unit_ref \<Rightarrow> FlowSheet \<Rightarrow> FlowSheet" where
  "add_connection origin destination fs =
     fs\<lparr>connections := connections fs @ [(origin, destination)]\<rparr>"

record Event =
  event_name :: string
  parameter_path :: string
  state :: "rat list"
  time :: rat

record Process =
  process_name :: string
  flow_sheet_attr :: FlowSheet
  cycle_time :: "rat option"
  events :: "Event list"

definition Process_init :: "FlowSheet \<Rightarrow> string \<Rightarrow> Process" where
  "Process_init fs nm =
     \<lparr>process_name = nm, flow_sheet_attr = fs, cycle_time = None, events = []\<rparr>"

text \<open>
  Modelled from the spec: the library's \<open>add_event\<close> is not part of the repository. The
  spec's data model gives an event as (name, target path, value, time) and says that
  "\<open>time\<close> defaults to 0 if omitted"; the events form an ordered sequence.
\<close>

definition add_event :: "string \<Rightarrow> string \<Rightarrow> rat list \<Rightarrow> rat option \<Rightarrow> Process \<Rightarrow> Process" where
  "add_event nm path val t p =
     p\<lparr>events := events p @
        [\<lparr>event_name = nm, parameter_path = path, state = val,
          time = (case t of None \<Rightarrow> 0 | Some t' \<Rightarrow> t')\<rparr>]\<rparr>"

subsection \<open>Model assembly (lines 52 to 105)\<close>

definition component_system :: ComponentSystem where
  "component_system = add_component ''A'' ComponentSystem_init"

definition binding_model :: Linear where
  "binding_model =
     (let binding_model = Linear_init component_system ''Linear'';
          binding_model = binding_model\<lparr>is_kinetic := Some False\<rparr>;
          binding_model = binding_model\<lparr>adsorption_rate := Some [25 / 10]\<rparr>;
          binding_model = binding_model\<lparr>desorption_rate := Some [1]\<rparr>
      in binding_model)"

definition column :: GeneralRateModel where
  "column =
     (let column = GeneralRateModel_init component_system ''column'';
          column = column\<lparr>binding_model_attr := Some binding_model\<rparr>;
          column = column\<lparr>length_attr := Some (17 / 1000)\<rparr>;
          column = column\<lparr>cross_section_area := Some (1 / 10 ^ 3)\<rparr>;
          column = column\<lparr>bed_porosity := Some (4 / 10)\<rparr>;
          column = column\<lparr>particle_radius := Some (4 / 10 ^ 5)\<rparr>;
          column = column\<lparr>particle_porosity := Some (333 / 1000)\<rparr>;
          column = set_axial_dispersion (333 / 10 ^ 11) column;
          column = column\<lparr>film_diffusion := Some (replicate (n_comp column) (167 / 10 ^ 8))\<rparr>;
          column = column\<lparr>pore_diffusion := Some (replicate (n_comp column) (3003 / 10 ^ 9))\<rparr>;
          column = column\<lparr>surface_diffusion := Some (replicate (n_bound_states column) 0)\<rparr>;
          column = column\<lparr>c := Some [0]\<rparr>;
          column = column\<lparr>q := Some [0]\<rparr>
      in column)"

text \<open>
  The library property \<open>cross_section_area_interstitial\<close> of a column is not part of the
  repository and the spec gives no formula for it: it is a parameter of the model.
\<close>

type_synonym area_property = "GeneralRateModel \<Rightarrow> rat"

definition inlet :: "area_property \<Rightarrow> Inlet" where
  "inlet cross_section_area_interstitial =
     (let inlet = Inlet_init component_system ''inlet'';
          inlet = inlet\<lparr>flow_rate :=
                    Some (cross_section_area_interstitial column * (3 / 10 * ((1 / 10 ^ 2) / 60)))\<rparr>
      in inlet)"

definition outlet :: Outlet where
  "outlet = Outlet_init component_system ''outlet''"

definition flow_sheet :: FlowSheet where
  "flow_sheet =
     (let flow_sheet = FlowSheet_init component_system;
          flow_sheet = add_unit inlet_ref False flow_sheet;
          flow_sheet = add_unit column_ref False flow_sheet;
          flow_sheet = add_unit outlet_ref True flow_sheet;
          flow_sheet = add_connection inlet_ref column_ref flow_sheet;
          flow_sheet = add_connection column_ref outlet_ref flow_sheet
      in flow_sheet)"

definition pulse_duration :: rat where
  "pulse_duration = 20 * 60"

definition c_pulse :: "rat list" where
  "c_pulse = [1]"

definition c_initial :: "rat list" where
  "c_initial = [0]"

definition process :: Process where
  "process =
     (let process = Process_init flow_sheet ''pulse'';
          process = process\<lparr>cycle_time := Some (100 * 60)\<rparr>;
          process = add_event ''pulse_start'' ''flow_sheet.inlet.c'' c_pulse None process;
          process = add_event ''pulse_stop'' ''flow_sheet.inlet.c'' c_initial (Some pulse_duration) process
      in process)"

subsection \<open>Module state, the simulator and the plotting calls\<close>

text \<open>
  The unit objects that the flow sheet refers to, the process, and the trace of
  externally observable calls made so far.
\<close>

datatype unit_operation = Inlet_unit Inlet | Column_unit GeneralRateModel | Outlet_unit Outlet

text \<open>
  What \<open>simulate(process)\<close> receives: the process, with every unit reference of its flow
  sheet resolved to the unit object as it is at the time of the call.
\<close>

record snapshot =
  sn_process :: Process
  sn_units :: "unit_operation list"

datatype 'r effect =
    Print string
  | Simulate snapshot
  | Plot 'r "(nat \<times> nat) option"
  | Subplots nat nat "nat list"
  | SetTitle "nat \<times> nat" string
  | TightLayout

record 'r module_state =
  g_inlet :: Inlet
  g_column :: GeneralRateModel
  g_outlet :: Outlet
  g_process :: Process
  effects :: "'r effect list"

definition deref :: "'r module_state \<Rightarrow> unit_ref \<Rightarrow> unit_operation" where
  "deref st r =
     (case r of inlet_ref \<Rightarrow> Inlet_unit (g_inlet st)
      | column_ref \<Rightarrow> Column_unit (g_column st)
      | outlet_ref \<Rightarrow> Outlet_unit (g_outlet st))"

definition resolve :: "'r module_state \<Rightarrow> snapshot" where
  "resolve st =
     \<lparr>sn_process = g_process st,
      sn_units = map (deref st) (units (flow_sheet_attr (g_process st)))\<rparr>"

text \<open>
  The simulator is external and opaque: a function of the process it is given, which
  returns a result or fails (\<open>None\<close>); a failure propagates as an exception.
\<close>

type_synonym 'r simulator = "snapshot \<Rightarrow> 'r option"

definition simulate :: "'r simulator \<Rightarrow> 'r module_state \<Rightarrow> error + ('r \<times> 'r module_state)" where
  "simulate sim st =
     (let snap = resolve st;
          st = st\<lparr>effects := effects st @ [Simulate snap]\<rparr>
      in case sim snap of None \<Rightarrow> Inl SimulatorError | Some r \<Rightarrow> Inr (r, st))"

text \<open>The state when line 105 has been executed.\<close>

definition assembled :: "area_property \<Rightarrow> 'r module_state" where
  "assembled cross_section_area_interstitial =
     \<lparr>g_inlet = inlet cross_section_area_interstitial, g_column = column,
      g_outlet = outlet, g_process = process, effects = []\<rparr>"

subsection \<open>Peclet number and the sweep (lines 109 to 148)\<close>

text \<open>Line 124: \<open>(column.length * (0.3 * (1e-2 / 60))) / column.axial_dispersion[0]\<close>.\<close>

definition peclet_number :: "GeneralRateModel \<Rightarrow> error + rat" where
  "peclet_number col =
     (case num_attr (length_attr col) of Inl e \<Rightarrow> Inl e
      | Inr l \<Rightarrow>
     (case num_attr (axial_dispersion col) of Inl e \<Rightarrow> Inl e
      | Inr ds \<Rightarrow>
     (case py_index ds 0 of Inl e \<Rightarrow> Inl e
      | Inr d \<Rightarrow> py_truediv (l * (3 / 10 * ((1 / 10 ^ 2) / 60))) d)))"

text \<open>
  Line 143:
  \<open>column.axial_dispersion = (column.length * (0.3 * (1e-2 / 60))) / peclet_number\<close>.
\<close>

definition assign_dispersion :: "rat \<Rightarrow> GeneralRateModel \<Rightarrow> error + GeneralRateModel" where
  "assign_dispersion pe col =
     (case num_attr (length_attr col) of Inl e \<Rightarrow> Inl e
      | Inr l \<Rightarrow>
     (case py_truediv (l * (3 / 10 * ((1 / 10 ^ 2) / 60))) pe of Inl e \<Rightarrow> Inl e
      | Inr d \<Rightarrow> Inr (set_axial_dispersion d col)))"

text \<open>\<open>plt.subplots(3, 2)\<close> followed by \<open>flatten()\<close>: the panels in row-major order.\<close>

definition subplots_flatten :: "nat \<Rightarrow> nat \<Rightarrow> (nat \<times> nat) list" where
  "subplots_flatten nrows ncols =
     concat (map (\<lambda>r. map (\<lambda>k. (r, k)) [0..<ncols]) [0..<nrows])"

definition peclet_numbers :: "int list" where
  "peclet_numbers = [1, 5, 25, 50, 100, 255]"

text \<open>The body of the loop, lines 143 to 146, for index \<open>i\<close> and value \<open>pe\<close>.\<close>

definition sweep_step ::
  "'r simulator \<Rightarrow> (nat \<times> nat) list \<Rightarrow> nat \<Rightarrow> int \<Rightarrow> 'r module_state \<Rightarrow> error + 'r module_state" where
  "sweep_step sim axes i pe st =
     (case assign_dispersion (of_int pe) (g_column st) of Inl e \<Rightarrow> Inl e
      | Inr col \<Rightarrow>
     (case simulate sim (st\<lparr>g_column := col\<rparr>) of Inl e \<Rightarrow> Inl e
      | Inr (r, st) \<Rightarrow>
     (case py_index axes i of Inl e \<Rightarrow> Inl e
      | Inr ax \<Rightarrow>
          Inr (st\<lparr>effects := effects st @
                 [Plot r (Some ax), SetTitle ax (''Peclet number: '' @ str_int pe)]\<rparr>))))"

fun sweep_loop ::
  "'r simulator \<Rightarrow> (nat \<times> nat) list \<Rightarrow> (nat \<times> int) list \<Rightarrow> 'r module_state \<Rightarrow> error + 'r module_state" where
  "sweep_loop sim axes [] st = Inr st"
| "sweep_loop sim axes ((i, pe) # rest) st =
     (case sweep_step sim axes i pe st of Inl e \<Rightarrow> Inl e
      | Inr st' \<Rightarrow> sweep_loop sim axes rest st')"

text \<open>Lines 110 to 115, the first guarded block.\<close>

definition first_block :: "'r simulator \<Rightarrow> 'r module_state \<Rightarrow> error + 'r module_state" where
  "first_block sim st =
     (case simulate sim st of Inl e \<Rightarrow> Inl e
      | Inr (r, st) \<Rightarrow> Inr (st\<lparr>effects := effects st @ [Plot r None]\<rparr>))"

text \<open>Lines 133 to 148, the second guarded block.\<close>

definition second_block :: "'r simulator \<Rightarrow> 'r module_state \<Rightarrow> error + 'r module_state" where
  "second_block sim st =
     (let st = st\<lparr>effects := effects st @ [Subplots 3 2 [10, 12]]\<rparr>;
          axes = subplots_flatten 3 2
      in case sweep_loop sim axes (enumerate 0 peclet_numbers) st of Inl e \<Rightarrow> Inl e
         | Inr st \<Rightarrow> Inr (st\<lparr>effects := effects st @ [TightLayout]\<rparr>))"

text \<open>
  The whole module, executed under the module name \<open>nm\<close> (the value of \<open>__name__\<close>):
  assembly, \<open>print(__name__)\<close> at line 109, the first guarded block, the Peclet number of
  line 124, the second guarded block. The expression statements of lines 121 and 125 have
  no effect when the interpreter executes the file (a notebook front end would display
  their values); the \<open>import\<close> statements are not modelled.
\<close>

definition run_module ::
  "area_property \<Rightarrow> 'r simulator \<Rightarrow> string \<Rightarrow> error + 'r module_state" where
  "run_module cross_section_area_interstitial sim nm =
     (let st = assembled cross_section_area_interstitial;
          st = st\<lparr>effects := effects st @ [Print nm]\<rparr>
      in case (if nm = ''__main__'' then first_block sim st else Inr st) of Inl e \<Rightarrow> Inl e
         | Inr st \<Rightarrow>
        (case peclet_number (g_column st) of Inl e \<Rightarrow> Inl e
         | Inr pe \<Rightarrow> if nm = ''__main__'' then second_block sim st else Inr st))"

subsection \<open>Lines 124 and 143 in binary64 arithmetic\<close>

text \<open>
  A Python float: a finite double (given by its rational value), an infinity or a NaN.
  The sign of a zero is not kept; no operation of the script can tell the two zeros
  apart (a division by either raises ZeroDivisionError).
\<close>

datatype pyfloat = Finite rat | PosInf | NegInf | NaN

text \<open>Rounding a rational to the nearest integer, ties to the even one.\<close>

definition round_half_even :: "rat \<Rightarrow> int" where
  "round_half_even x =
     (let f = \<lfloor>x\<rfloor>; r = x - of_int f
      in if r < 1 / 2 then f else if 1 / 2 < r then f + 1 else if even f then f else f + 1)"

text \<open>
  For \<open>a > 0\<close>, the exponent \<open>e\<close> with \<open>2 powi e \<le> a < 2 powi (e + 1)\<close>, computed from
  the bit lengths of numerator and denominator.
\<close>

definition binade :: "rat \<Rightarrow> int" where
  "binade a =
     (let e0 = bitlen (fst (quotient_of a)) - bitlen (snd (quotient_of a))
      in if a < 2 powi e0 then e0 - 1 else e0)"

text \<open>
  Rounding to binary64, to nearest with ties to even: 53 significant bits, the spacing
  of the subnormal numbers below \<open>2 powi (- 1022)\<close>, and an infinity when the rounded
  magnitude reaches \<open>2 ^ 1024\<close>. This is how Python reads a decimal literal and how each
  arithmetic operation rounds its exact result.
\<close>

definition double_of_rat :: "rat \<Rightarrow> pyfloat" where
  "double_of_rat x =
     (if x = 0 then Finite 0
      else
        let a = \<bar>x\<bar>;
            e = max (binade a) (- 1022);
            ulp = 2 powi (e - 52);
            r = of_int (round_half_even (a / ulp)) * ulp
        in if 2 ^ 1024 \<le> r then (if 0 < x then PosInf else NegInf)
           else Finite (if 0 < x then r else - r))"

text \<open>A Python number: the sweep passes ints, a caller may pass a float.\<close>

datatype pynum = PyInt int | PyFloat pyfloat

text \<open>
  The conversion applied to the right operand of \<open>float / x\<close>: an int is rounded to the
  nearest double, and an int too large for a double raises OverflowError.
\<close>

definition py_float :: "pynum \<Rightarrow> error + pyfloat" where
  "py_float v =
     (case v of
        PyFloat x \<Rightarrow> Inr x
      | PyInt n \<Rightarrow>
          (case double_of_rat (of_int n) of
             Finite r \<Rightarrow> Inr (Finite r)
           | _ \<Rightarrow> Inl OverflowError))"

text \<open>
  \<open>a / b\<close> on floats: a zero divisor raises ZeroDivisionError, whatever \<open>a\<close> is; a finite
  quotient is rounded; the infinities and NaN follow IEEE 754.
\<close>

fun float_truediv :: "pyfloat \<Rightarrow> pyfloat \<Rightarrow> error + pyfloat" where
  "float_truediv a (Finite y) =
     (if y = 0 then Inl ZeroDivisionError
      else Inr (case a of
                  Finite x \<Rightarrow> double_of_rat (x / y)
                | PosInf \<Rightarrow> (if 0 < y then PosInf else NegInf)
                | NegInf \<Rightarrow> (if 0 < y then NegInf else PosInf)
                | NaN \<Rightarrow> NaN))"
| "float_truediv a NaN = Inr NaN"
| "float_truediv a b = Inr (case a of Finite x \<Rightarrow> Finite 0 | _ \<Rightarrow> NaN)"

text \<open>\<open>a * b\<close> on floats.\<close>

fun float_mul :: "pyfloat \<Rightarrow> pyfloat \<Rightarrow> pyfloat" where
  "float_mul (Finite x) (Finite y) = double_of_rat (x * y)"
| "float_mul NaN b = NaN"
| "float_mul a NaN = NaN"
| "float_mul (Finite x) b =
     (if x = 0 then NaN else if (0 < x) = (b = PosInf) then PosInf else NegInf)"
| "float_mul a (Finite y) =
     (if y = 0 then NaN else if (0 < y) = (a = PosInf) then PosInf else NegInf)"
| "float_mul a b = (if a = b then PosInf else NegInf)"

text \<open>
  The numerator of lines 124 and 143, \<open>column.length * (0.3 * (1e-2 / 60))\<close>, evaluated as
  Python does: each literal is the double nearest to the decimal, the int 60 is
  converted, and each operation rounds.
\<close>

definition numerator_double :: "GeneralRateModel \<Rightarrow> error + pyfloat" where
  "numerator_double col =
     (case num_attr (length_attr col) of Inl e \<Rightarrow> Inl e
      | Inr l \<Rightarrow>
     (case py_float (PyInt 60) of Inl e \<Rightarrow> Inl e
      | Inr sixty \<Rightarrow>
     (case float_truediv (double_of_rat (1 / 10 ^ 2)) sixty of Inl e \<Rightarrow> Inl e
      | Inr t \<Rightarrow>
          Inr (float_mul (double_of_rat l) (float_mul (double_of_rat (3 / 10)) t)))))"

text \<open>
  Line 143 in doubles: the value stored in \<open>column.axial_dispersion\<close> (one entry per
  species) for the Peclet number \<open>pe\<close>. It is returned as such, since it can be an
  infinity.
\<close>

definition assign_dispersion_double :: "pynum \<Rightarrow> GeneralRateModel \<Rightarrow> error + pyfloat list" where
  "assign_dispersion_double pe col =
     (case numerator_double col of Inl e \<Rightarrow> Inl e
      | Inr n \<Rightarrow>
     (case py_float pe of Inl e \<Rightarrow> Inl e
      | Inr p \<Rightarrow>
     (case float_truediv n p of Inl e \<Rightarrow> Inl e
      | Inr d \<Rightarrow> Inr (replicate (n_comp col) d))))"

text \<open>
  Line 124 in doubles, for a column whose \<open>axial_dispersion\<close> attribute holds \<open>ds\<close>.
\<close>

definition peclet_number_double :: "GeneralRateModel \<Rightarrow> pyfloat list \<Rightarrow> error + pyfloat" where
  "peclet_number_double col ds =
     (case numerator_double col of Inl e \<Rightarrow> Inl e
      | Inr n \<Rightarrow>
     (case py_index ds 0 of Inl e \<Rightarrow> Inl e
      | Inr d \<Rightarrow> float_truediv n d))"

subsection \<open>Notions used to state the claims\<close>

text \<open>
  The column of the script with its axial dispersion replaced by the value that line 143
  computes for the Peclet number \<open>pe\<close>; every other attribute is the assembled one.
\<close>

definition sweep_column :: "rat \<Rightarrow> GeneralRateModel" where
  "sweep_column pe =
     column\<lparr>axial_dispersion := Some [(17 / 1000 * (3 / 10 * ((1 / 10 ^ 2) / 60))) / pe]\<rparr>"

text \<open>
  The process as the simulator sees it when the column object is \<open>col\<close>: the assembled
  process, inlet and outlet, and \<open>col\<close> in the place of the column.
\<close>

definition snapshot_with :: "area_property \<Rightarrow> GeneralRateModel \<Rightarrow> snapshot" where
  "snapshot_with a col =
     \<lparr>sn_process = process,
      sn_units = [Inlet_unit (inlet a), Column_unit col, Outlet_unit outlet]\<rparr>"

text \<open>
  The module state with the assembled inlet, outlet and process, the column \<open>col\<close> and
  the trace \<open>es\<close>.
\<close>

definition sweep_state :: "area_property \<Rightarrow> GeneralRateModel \<Rightarrow> 'r effect list \<Rightarrow> 'r module_state" where
  "sweep_state a col es =
     \<lparr>g_inlet = inlet a, g_column = col, g_outlet = outlet, g_process = process, effects = es\<rparr>"

text \<open>
  The equilibrium constant of each species of a linear binding model, in the words of
  claim C10: adsorption rate divided by desorption rate.
\<close>

definition equilibrium_constants :: "Linear \<Rightarrow> rat list option" where
  "equilibrium_constants bm =
     (case (adsorption_rate bm, desorption_rate bm) of
        (Some ka, Some kd) \<Rightarrow> Some (map (\<lambda>(x, y). x / y) (zip ka kd))
      | _ \<Rightarrow> None)"

text \<open>
  Two concrete collaborators for the closed instances below: an area property (bed
  porosity times cross-section area) and a simulator that always succeeds and returns
  the process it was given.
\<close>

definition example_area :: area_property where
  "example_area u =
     (case (bed_porosity u, cross_section_area u) of
        (Some e, Some a) \<Rightarrow> e * a
      | _ \<Rightarrow> 0)"

definition echo_simulator :: "snapshot simulator" where
  "echo_simulator s = Some s"

subsection \<open>Helper facts\<close>

lemma n_comp_component_system: "length (components component_system) = 1"
  by (simp add: component_system_def add_component_def ComponentSystem_init_def)

lemma column_n_comp: "n_comp column = 1"
  by (simp add: column_def Let_def GeneralRateModel_init_def set_axial_dispersion_def n_comp_def
      n_comp_component_system)

lemma column_length: "length_attr column = Some (17 / 1000)"
  by (simp add: column_def Let_def GeneralRateModel_init_def set_axial_dispersion_def)

lemma column_axial_dispersion: "axial_dispersion column = Some [333 / 10 ^ 11]"
  by (simp add: column_def Let_def GeneralRateModel_init_def set_axial_dispersion_def n_comp_def
      n_comp_component_system)

lemma assign_dispersion_column:
  "pe \<noteq> 0 \<Longrightarrow> assign_dispersion pe (column\<lparr>axial_dispersion := ds\<rparr>) = Inr (sweep_column pe)"
  using column_n_comp
  by (simp add: assign_dispersion_def num_attr_def py_truediv_def column_length
      set_axial_dispersion_def n_comp_def sweep_column_def)

lemma peclet_sweep_column: "pe \<noteq> 0 \<Longrightarrow> peclet_number (sweep_column pe) = Inr pe"
  by (simp add: peclet_number_def sweep_column_def num_attr_def py_index_def py_truediv_def
      column_length)

lemma peclet_number_column: "peclet_number column = Inr (85000 / 333)"
  by (simp add: peclet_number_def column_length column_axial_dispersion num_attr_def
      py_index_def py_truediv_def)

lemma units_process: "units (flow_sheet_attr process) = [inlet_ref, column_ref, outlet_ref]"
  by (simp add: process_def Let_def Process_init_def add_event_def flow_sheet_def FlowSheet_init_def
      add_unit_def add_connection_def)

lemma assembled_sweep_state: "assembled a = sweep_state a column []"
  by (simp add: assembled_def sweep_state_def)

lemma assembled_effects: "(assembled a)\<lparr>effects := es\<rparr> = sweep_state a column es"
  by (simp add: assembled_def sweep_state_def)

lemma resolve_sweep_state:
  "resolve (sweep_state a col es) = snapshot_with a col"
  by (simp add: resolve_def sweep_state_def snapshot_with_def units_process deref_def)

lemma sweep_state_sel [simp]:
  "g_inlet (sweep_state a col es) = inlet a"
  "g_column (sweep_state a col es) = col"
  "g_outlet (sweep_state a col es) = outlet"
  "g_process (sweep_state a col es) = process"
  "effects (sweep_state a col es) = es"
  by (simp_all add: sweep_state_def)

lemma sweep_state_upd [simp]:
  "(sweep_state a col es)\<lparr>g_column := col'\<rparr> = sweep_state a col' es"
  "(sweep_state a col es)\<lparr>effects := es'\<rparr> = sweep_state a col es'"
  by (simp_all add: sweep_state_def)

lemma sweep_column_is_update:
  "sweep_column pe = column\<lparr>axial_dispersion := Some [(17 / 1000 * (3 / 10 * ((1 / 10 ^ 2) / 60))) / pe]\<rparr>"
  by (simp add: sweep_column_def)

lemma str_int_peclet:
  "str_int 1 = ''1''" "str_int 5 = ''5''" "str_int 25 = ''25''"
  "str_int 50 = ''50''" "str_int 100 = ''100''" "str_int 255 = ''255''"
  by code_simp+

lemma subplots_flatten_3_2:
  "subplots_flatten 3 2 = [(0, 0), (0, 1), (1, 0), (1, 1), (2, 0), (2, 1)]"
  by code_simp

lemma enumerate_peclet_numbers:
  "enumerate 0 peclet_numbers = [(0, 1), (1, 5), (2, 25), (3, 50), (4, 100), (5, 255)]"
  by (simp add: peclet_numbers_def)

lemma echo_simulator_ok: "echo_simulator s = Some s"
  by (simp add: echo_simulator_def)

subsection \<open>The sweep, forwards: successful simulator calls give the whole trace\<close>

lemma sweep_step_ok:
  assumes "pe \<noteq> 0" and "i < length axes"
    and "sim (snapshot_with a (sweep_column (of_int pe))) = Some r"
  shows "sweep_step sim axes i pe (sweep_state a (column\<lparr>axial_dispersion := ds\<rparr>) es) =
           Inr (sweep_state a (sweep_column (of_int pe))
                  (es @ [Simulate (snapshot_with a (sweep_column (of_int pe))), Plot r (Some (axes ! i)),
                         SetTitle (axes ! i) (''Peclet number: '' @ str_int pe)]))"
proof -
  have d: "assign_dispersion (of_int pe) (column\<lparr>axial_dispersion := ds\<rparr>)
             = Inr (sweep_column (of_int pe))"
    using assms(1) by (simp add: assign_dispersion_column)
  have s: "simulate sim (sweep_state a (sweep_column (of_int pe)) es)
             = Inr (r, sweep_state a (sweep_column (of_int pe))
                         (es @ [Simulate (snapshot_with a (sweep_column (of_int pe)))]))"
    using assms(3) by (simp add: simulate_def Let_def resolve_sweep_state)
  show ?thesis
    using assms(2) by (simp add: sweep_step_def d s py_index_def)
qed

lemma sweep_step_ok':
  assumes "pe \<noteq> 0" and "i < length axes"
    and "sim (snapshot_with a (sweep_column (of_int pe))) = Some r"
  shows "sweep_step sim axes i pe (sweep_state a (sweep_column pe0) es) =
           Inr (sweep_state a (sweep_column (of_int pe))
                  (es @ [Simulate (snapshot_with a (sweep_column (of_int pe))), Plot r (Some (axes ! i)),
                         SetTitle (axes ! i) (''Peclet number: '' @ str_int pe)]))"
  unfolding sweep_column_is_update [of pe0]
  using assms by (rule sweep_step_ok)

lemma second_block_sweep:
  assumes "sim (snapshot_with a (sweep_column 1)) = Some r1"
    and "sim (snapshot_with a (sweep_column 5)) = Some r2"
    and "sim (snapshot_with a (sweep_column 25)) = Some r3"
    and "sim (snapshot_with a (sweep_column 50)) = Some r4"
    and "sim (snapshot_with a (sweep_column 100)) = Some r5"
    and "sim (snapshot_with a (sweep_column 255)) = Some r6"
  shows "second_block sim (sweep_state a column es) =
           Inr (sweep_state a (sweep_column 255)
                 (es @
                  [Subplots 3 2 [10, 12],
                   Simulate (snapshot_with a (sweep_column 1)), Plot r1 (Some (0, 0)),
                   SetTitle (0, 0) ''Peclet number: 1'',
                   Simulate (snapshot_with a (sweep_column 5)), Plot r2 (Some (0, 1)),
                   SetTitle (0, 1) ''Peclet number: 5'',
                   Simulate (snapshot_with a (sweep_column 25)), Plot r3 (Some (1, 0)),
                   SetTitle (1, 0) ''Peclet number: 25'',
                   Simulate (snapshot_with a (sweep_column 50)), Plot r4 (Some (1, 1)),
                   SetTitle (1, 1) ''Peclet number: 50'',
                   Simulate (snapshot_with a (sweep_column 100)), Plot r5 (Some (2, 0)),
                   SetTitle (2, 0) ''Peclet number: 100'',
                   Simulate (snapshot_with a (sweep_column 255)), Plot r6 (Some (2, 1)),
                   SetTitle (2, 1) ''Peclet number: 255'',
                   TightLayout]))"
proof -
  let ?axes = "[(0, 0), (0, 1), (1, 0), (1, 1), (2, 0), (2, 1)] :: (nat \<times> nat) list"
  have c0: "column = column\<lparr>axial_dispersion := axial_dispersion column\<rparr>"
    by simp
  have s1: "sweep_step sim ?axes 0 1 (sweep_state a column es') =
              Inr (sweep_state a (sweep_column 1)
                (es' @ [Simulate (snapshot_with a (sweep_column 1)), Plot r1 (Some (0, 0)),
                        SetTitle (0, 0) ''Peclet number: 1'']))" for es'
    using sweep_step_ok [of 1 0 ?axes sim a r1 "axial_dispersion column" es'] assms(1)
    by (simp add: str_int_peclet)
  have s2: "sweep_step sim ?axes 1 5 (sweep_state a (sweep_column 1) es') =
              Inr (sweep_state a (sweep_column 5)
                (es' @ [Simulate (snapshot_with a (sweep_column 5)), Plot r2 (Some (0, 1)),
                        SetTitle (0, 1) ''Peclet number: 5'']))" for es'
    using sweep_step_ok' [of 5 1 ?axes sim a r2 1 es'] assms(2)
    by (simp add: str_int_peclet)
  have s3: "sweep_step sim ?axes 2 25 (sweep_state a (sweep_column 5) es') =
              Inr (sweep_state a (sweep_column 25)
                (es' @ [Simulate (snapshot_with a (sweep_column 25)), Plot r3 (Some (1, 0)),
                        SetTitle (1, 0) ''Peclet number: 25'']))" for es'
    using sweep_step_ok' [of 25 2 ?axes sim a r3 5 es'] assms(3)
    by (simp add: str_int_peclet)
  have s4: "sweep_step sim ?axes 3 50 (sweep_state a (sweep_column 25) es') =
              Inr (sweep_state a (sweep_column 50)
                (es' @ [Simulate (snapshot_with a (sweep_column 50)), Plot r4 (Some (1, 1)),
                        SetTitle (1, 1) ''Peclet number: 50'']))" for es'
    using sweep_step_ok' [of 50 3 ?axes sim a r4 25 es'] assms(4)
    by (simp add: str_int_peclet)
  have s5: "sweep_step sim ?axes 4 100 (sweep_state a (sweep_column 50) es') =
              Inr (sweep_state a (sweep_column 100)
                (es' @ [Simulate (snapshot_with a (sweep_column 100)), Plot r5 (Some (2, 0)),
                        SetTitle (2, 0) ''Peclet number: 100'']))" for es'
    using sweep_step_ok' [of 100 4 ?axes sim a r5 50 es'] assms(5)
    by (simp add: str_int_peclet)
  have s6: "sweep_step sim ?axes 5 255 (sweep_state a (sweep_column 100) es') =
              Inr (sweep_state a (sweep_column 255)
                (es' @ [Simulate (snapshot_with a (sweep_column 255)), Plot r6 (Some (2, 1)),
                        SetTitle (2, 1) ''Peclet number: 255'']))" for es'
    using sweep_step_ok' [of 255 5 ?axes sim a r6 100 es'] assms(6)
    by (simp add: str_int_peclet)
  show "second_block sim (sweep_state a column es) =
           Inr (sweep_state a (sweep_column 255)
                 (es @
                  [Subplots 3 2 [10, 12],
                   Simulate (snapshot_with a (sweep_column 1)), Plot r1 (Some (0, 0)),
                   SetTitle (0, 0) ''Peclet number: 1'',
                   Simulate (snapshot_with a (sweep_column 5)), Plot r2 (Some (0, 1)),
                   SetTitle (0, 1) ''Peclet number: 5'',
                   Simulate (snapshot_with a (sweep_column 25)), Plot r3 (Some (1, 0)),
                   SetTitle (1, 0) ''Peclet number: 25'',
                   Simulate (snapshot_with a (sweep_column 50)), Plot r4 (Some (1, 1)),
                   SetTitle (1, 1) ''Peclet number: 50'',
                   Simulate (snapshot_with a (sweep_column 100)), Plot r5 (Some (2, 0)),
                   SetTitle (2, 0) ''Peclet number: 100'',
                   Simulate (snapshot_with a (sweep_column 255)), Plot r6 (Some (2, 1)),
                   SetTitle (2, 1) ''Peclet number: 255'',
                   TightLayout]))"
    by (simp only: second_block_def Let_def subplots_flatten_3_2 enumerate_peclet_numbers
        sweep_state_upd sweep_state_sel sweep_loop.simps s1 s2 s3 s4 s5 s6 sum.case
        append_assoc append_Cons append_Nil)
qed

lemma run_module_import:
  assumes "nm \<noteq> ''__main__''"
  shows "run_module a sim nm = Inr ((assembled a)\<lparr>effects := [Print nm]\<rparr>)"
  using assms by (simp add: run_module_def Let_def assembled_effects assembled_sweep_state
      peclet_number_column)

lemma run_module_main:
  "run_module a sim ''__main__'' =
     (case sim (snapshot_with a column) of None \<Rightarrow> Inl SimulatorError
      | Some r \<Rightarrow>
          second_block sim (sweep_state a column
            [Print ''__main__'', Simulate (snapshot_with a column), Plot r None]))"
  by (simp add: run_module_def Let_def assembled_sweep_state first_block_def simulate_def
      resolve_sweep_state peclet_number_column split: option.splits)

lemma run_module_main_ok:
  assumes "sim (snapshot_with a column) = Some r0"
    and "sim (snapshot_with a (sweep_column 1)) = Some r1"
    and "sim (snapshot_with a (sweep_column 5)) = Some r2"
    and "sim (snapshot_with a (sweep_column 25)) = Some r3"
    and "sim (snapshot_with a (sweep_column 50)) = Some r4"
    and "sim (snapshot_with a (sweep_column 100)) = Some r5"
    and "sim (snapshot_with a (sweep_column 255)) = Some r6"
  shows "run_module a sim ''__main__'' =
           Inr (sweep_state a (sweep_column 255)
                 ([Print ''__main__'', Simulate (snapshot_with a column), Plot r0 None] @
                  [Subplots 3 2 [10, 12],
                   Simulate (snapshot_with a (sweep_column 1)), Plot r1 (Some (0, 0)),
                   SetTitle (0, 0) ''Peclet number: 1'',
                   Simulate (snapshot_with a (sweep_column 5)), Plot r2 (Some (0, 1)),
                   SetTitle (0, 1) ''Peclet number: 5'',
                   Simulate (snapshot_with a (sweep_column 25)), Plot r3 (Some (1, 0)),
                   SetTitle (1, 0) ''Peclet number: 25'',
                   Simulate (snapshot_with a (sweep_column 50)), Plot r4 (Some (1, 1)),
                   SetTitle (1, 1) ''Peclet number: 50'',
                   Simulate (snapshot_with a (sweep_column 100)), Plot r5 (Some (2, 0)),
                   SetTitle (2, 0) ''Peclet number: 100'',
                   Simulate (snapshot_with a (sweep_column 255)), Plot r6 (Some (2, 1)),
                   SetTitle (2, 1) ''Peclet number: 255'',
                   TightLayout]))"
  by (simp only: run_module_main assms(1) option.case
      second_block_sweep [OF assms(2) assms(3) assms(4) assms(5) assms(6) assms(7)])

subsection \<open>The sweep, backwards: a completed run went through every iteration\<close>

lemma sweep_step_inv:
  assumes "pe \<noteq> 0"
    and "sweep_step sim axes i pe (sweep_state a (column\<lparr>axial_dispersion := ds\<rparr>) es) = Inr st'"
  shows "\<exists>es'. st' = sweep_state a (sweep_column (of_int pe)) es'"
proof -
  have d: "assign_dispersion (of_int pe) (column\<lparr>axial_dispersion := ds\<rparr>)
             = Inr (sweep_column (of_int pe))"
    using assms(1) by (simp add: assign_dispersion_column)
  from assms(2) show ?thesis
    by (auto simp add: sweep_step_def d simulate_def Let_def
        split: sum.splits option.splits prod.splits)
qed

lemma sweep_loop_inv:
  assumes "list_all (\<lambda>ip. snd ip \<noteq> 0) ips" and "ips \<noteq> []"
    and "sweep_loop sim axes ips (sweep_state a (column\<lparr>axial_dispersion := ds\<rparr>) es) = Inr st'"
  shows "\<exists>es'. st' = sweep_state a (sweep_column (of_int (snd (last ips)))) es'"
  using assms
proof (induction ips arbitrary: ds es)
  case Nil
  then show ?case by simp
next
  case (Cons ip ips)
  obtain i pe where ip: "ip = (i, pe)" by (cases ip)
  from Cons.prems(1) ip have pe: "pe \<noteq> 0" by simp
  from Cons.prems(3) ip obtain st1 where
    st1: "sweep_step sim axes i pe (sweep_state a (column\<lparr>axial_dispersion := ds\<rparr>) es) = Inr st1"
    and rest: "sweep_loop sim axes ips st1 = Inr st'"
    by (auto split: sum.splits)
  from sweep_step_inv [OF pe st1] obtain es1 where
    e1: "st1 = sweep_state a (sweep_column (of_int pe)) es1" by blast
  show ?case
  proof (cases ips)
    case Nil
    with rest e1 ip show ?thesis by auto
  next
    case (Cons ip' ips')
    then have ne: "ips \<noteq> []" by simp
    from Cons.prems(1) have all: "list_all (\<lambda>ip. snd ip \<noteq> 0) ips" by simp
    from rest e1 have
      "sweep_loop sim axes ips
         (sweep_state a (column\<lparr>axial_dispersion :=
            Some [(17 / 1000 * (3 / 10 * ((1 / 10 ^ 2) / 60))) / of_int pe]\<rparr>) es1) = Inr st'"
      by (simp add: sweep_column_def)
    from Cons.IH [OF all ne this] ne show ?thesis by simp
  qed
qed

lemma second_block_inv:
  assumes "second_block sim (sweep_state a column es) = Inr st"
  shows "\<exists>es'. st = sweep_state a (sweep_column 255) es'"
proof -
  have all: "list_all (\<lambda>ip. snd ip \<noteq> 0) (enumerate 0 peclet_numbers)"
    by (simp add: enumerate_peclet_numbers)
  have ne: "enumerate 0 peclet_numbers \<noteq> []"
    by (simp add: enumerate_peclet_numbers)
  have lst: "snd (last (enumerate 0 peclet_numbers)) = 255"
    by (simp add: enumerate_peclet_numbers)
  from assms obtain st1 where
    l: "sweep_loop sim (subplots_flatten 3 2) (enumerate 0 peclet_numbers)
          (sweep_state a (column\<lparr>axial_dispersion := axial_dispersion column\<rparr>)
             (es @ [Subplots 3 2 [10, 12]])) = Inr st1"
    and st: "st = st1\<lparr>effects := effects st1 @ [TightLayout]\<rparr>"
    by (auto simp add: second_block_def Let_def split: sum.splits)
  from sweep_loop_inv [OF all ne l] lst obtain es1 where
    "st1 = sweep_state a (sweep_column 255) es1" by auto
  with st have "st = sweep_state a (sweep_column 255) (es1 @ [TightLayout])" by simp
  then show ?thesis by blast
qed

text \<open>A failing simulator call aborts the step, and with it the loop.\<close>

lemma sweep_step_simulator_fails:
  assumes "pe \<noteq> 0"
    and "sim (snapshot_with a (sweep_column (of_int pe))) = None"
  shows "sweep_step sim axes i pe (sweep_state a (column\<lparr>axial_dispersion := ds\<rparr>) es) =
           Inl SimulatorError"
proof -
  have d: "assign_dispersion (of_int pe) (column\<lparr>axial_dispersion := ds\<rparr>)
             = Inr (sweep_column (of_int pe))"
    using assms(1) by (simp add: assign_dispersion_column)
  show ?thesis
    using assms(2) by (simp add: sweep_step_def d simulate_def Let_def resolve_sweep_state)
qed

subsection \<open>Binary64 rounding: error bound, evaluation and overflow\<close>

lemma round_half_even_err: "\<bar>of_int (round_half_even x) - x\<bar> \<le> 1 / 2"
proof -
  have "of_int \<lfloor>x\<rfloor> \<le> x" and "x < of_int \<lfloor>x\<rfloor> + 1"
    by linarith+
  then show ?thesis
    by (auto simp add: round_half_even_def Let_def)
qed

lemma bitlen_rat_bounds:
  assumes "0 < (n::int)"
  shows "(2::rat) powi (bitlen n - 1) \<le> of_int n" and "of_int n < (2::rat) powi (bitlen n)"
proof -
  from bitlen_bounds [OF assms] have lo: "2 ^ nat (bitlen n - 1) \<le> n" and hi: "n < 2 ^ nat (bitlen n)"
    by simp_all
  have b1: "1 \<le> bitlen n"
    using assms by (simp add: bitlen_alt_def)
  have "(of_int (2 ^ nat (bitlen n - 1)) :: rat) \<le> of_int n"
    using lo by (simp only: of_int_le_iff)
  then show "(2::rat) powi (bitlen n - 1) \<le> of_int n"
    using b1 by (simp add: power_int_def)
  have "(of_int n :: rat) < of_int (2 ^ nat (bitlen n))"
    using hi by (simp only: of_int_less_iff)
  then show "of_int n < (2::rat) powi (bitlen n)"
    using b1 by (simp add: power_int_def)
qed

lemma binade_bounds:
  assumes "0 < a"
  shows "2 powi (binade a) \<le> a" and "a < 2 powi (binade a + 1)"
proof -
  obtain n d where q: "quotient_of a = (n, d)" by (cases "quotient_of a")
  then have d: "0 < d" and a: "a = of_int n / of_int d"
    by (simp_all add: quotient_of_denom_pos quotient_of_div)
  from assms a d have n: "0 < n"
    by (simp add: zero_less_divide_iff)
  let ?e0 = "bitlen n - bitlen d"
  have dpos: "(0::rat) < of_int d" using d by simp
  have lo: "(2::rat) powi (?e0 - 1) \<le> a"
  proof -
    have e: "?e0 - 1 = (bitlen n - 1) - bitlen d" by simp
    have "(2::rat) powi (?e0 - 1) = 2 powi (bitlen n - 1) / 2 powi (bitlen d)"
      unfolding e by (rule power_int_diff) simp
    also have "\<dots> \<le> of_int n / 2 powi (bitlen d)"
      using bitlen_rat_bounds(1) [OF n] by (simp add: divide_right_mono)
    also have "\<dots> \<le> of_int n / of_int d"
      using bitlen_rat_bounds(2) [OF d] n dpos by (simp add: frac_le)
    finally show ?thesis by (simp add: a)
  qed
  have hi: "a < (2::rat) powi (?e0 + 1)"
  proof -
    have "a = of_int n / of_int d" by (rule a)
    also have "\<dots> < 2 powi (bitlen n) / of_int d"
      using bitlen_rat_bounds(2) [OF n] dpos by (simp add: divide_strict_right_mono)
    also have "\<dots> \<le> 2 powi (bitlen n) / 2 powi (bitlen d - 1)"
      using bitlen_rat_bounds(1) [OF d] by (simp add: frac_le)
    also have "\<dots> = (2::rat) powi (bitlen n - (bitlen d - 1))"
      by (rule power_int_diff [symmetric]) simp
    also have "bitlen n - (bitlen d - 1) = ?e0 + 1" by simp
    finally show ?thesis .
  qed
  show "2 powi (binade a) \<le> a"
    using lo by (simp add: binade_def q Let_def)
  show "a < 2 powi (binade a + 1)"
    using hi by (auto simp add: binade_def q Let_def)
qed

lemma pow2_pos: "(0::rat) < 2 powi k"
  by (rule zero_less_power_int) simp

lemma pow2_quot: "(2::rat) powi a / 2 powi b = 2 powi (a - b)"
  by (rule power_int_diff [symmetric]) simp

lemma pow2_mono: "a \<le> b \<Longrightarrow> (2::rat) powi a \<le> 2 powi b"
  by (rule power_int_increasing) simp_all

text \<open>In the normal range the rounded value is finite, within a relative \<open>2 powi (- 53)\<close>.\<close>

lemma double_of_rat_normal:
  assumes lo: "2 powi (- 1022) \<le> x" and hi: "x \<le> 2 powi 1023"
  shows "\<exists>r. double_of_rat x = Finite r \<and> \<bar>r - x\<bar> \<le> x / 2 ^ 53"
proof -
  have pos: "0 < x"
  proof -
    have "(0::rat) < 2 powi (- 1022)" by (rule zero_less_power_int) simp
    with lo show ?thesis by linarith
  qed
  define e where "e = binade x"
  have b1: "2 powi e \<le> x" and b2: "x < 2 powi (e + 1)"
    unfolding e_def using binade_bounds [OF pos] by simp_all
  have e_lo: "- 1022 \<le> e"
  proof (rule ccontr)
    assume "\<not> - 1022 \<le> e"
    then have "e + 1 \<le> - 1022" by simp
    then have "(2::rat) powi (e + 1) \<le> 2 powi (- 1022)"
      by (rule power_int_increasing) simp
    with lo b2 show False by linarith
  qed
  have e_hi: "e \<le> 1023"
  proof (rule ccontr)
    assume "\<not> e \<le> 1023"
    then have "1023 < e" by simp
    then have "(2::rat) powi 1023 < 2 powi e"
      by (rule power_int_strict_increasing) simp
    with hi b1 show False by linarith
  qed
  define ulp :: rat where "ulp = 2 powi (e - 52)"
  define m where "m = round_half_even (x / ulp)"
  define r where "r = of_int m * ulp"
  have ulp_pos: "0 < ulp"
    unfolding ulp_def by (rule zero_less_power_int) simp
  have half: "ulp / 2 = 2 powi e / 2 ^ 53"
  proof -
    have "(2::rat) powi (e - 52) = 2 powi e / 2 powi 52"
      by (rule power_int_diff) simp
    then show ?thesis by (simp add: ulp_def)
  qed
  have "\<bar>of_int m - x / ulp\<bar> \<le> 1 / 2"
    unfolding m_def by (rule round_half_even_err)
  then have "\<bar>of_int m - x / ulp\<bar> * ulp \<le> 1 / 2 * ulp"
    using ulp_pos by (simp only: mult_le_cancel_right_pos)
  moreover have "\<bar>of_int m - x / ulp\<bar> * ulp = \<bar>r - x\<bar>"
  proof -
    have "\<bar>of_int m - x / ulp\<bar> * ulp = \<bar>(of_int m - x / ulp) * ulp\<bar>"
      using ulp_pos by (simp add: abs_mult)
    also have "(of_int m - x / ulp) * ulp = r - x"
      using ulp_pos by (simp add: r_def algebra_simps)
    finally show ?thesis .
  qed
  ultimately have err: "\<bar>r - x\<bar> \<le> ulp / 2" by simp
  have "2 powi e / 2 ^ 53 \<le> x / (2 ^ 53 :: rat)"
    using b1 by (simp only: divide_right_mono zero_le_power zero_le_numeral)
  with err half have rel: "\<bar>r - x\<bar> \<le> x / 2 ^ 53" by linarith
  have small: "r < 2 powi 1024"
  proof -
    have "r \<le> x + x / 2 ^ 53" using rel by linarith
    also have "\<dots> \<le> 2 powi 1023 + 2 powi 1023 / 2 ^ 53"
      using hi by (intro add_mono divide_right_mono) simp_all
    also have "\<dots> < 2 powi 1023 + 2 powi 1023"
    proof -
      have "(0::rat) < 2 powi 1023" by (rule zero_less_power_int) simp
      then have "(2::rat) powi 1023 / 2 ^ 53 < 2 powi 1023 / 1"
        by (intro divide_strict_left_mono) simp_all
      then show ?thesis by simp
    qed
    also have "\<dots> = (2::rat) powi 1024"
    proof -
      have "(2::rat) powi (1023 + 1) = 2 powi 1023 * 2 powi 1"
        by (rule power_int_add) simp
      then show ?thesis by simp
    qed
    finally show ?thesis .
  qed
  have "double_of_rat x = Finite r"
  proof -
    have mx: "max (binade x) (- 1022) = e"
      using e_lo by (simp add: e_def)
    have nz: "x \<noteq> 0" and ab: "\<bar>x\<bar> = x" using pos by simp_all
    have s: "\<not> 2 ^ 1024 \<le> r"
      using small by (simp only: power_int_numeral not_le)
    show ?thesis
      unfolding double_of_rat_def Let_def ab mx
      using nz pos s by (simp only: if_False if_True r_def m_def ulp_def)
  qed
  with rel show ?thesis by blast
qed

text \<open>
  How a closed rounding is evaluated: the exponent and the integer significand
  determine the result.
\<close>

lemma binade_eqI:
  assumes "2 powi e \<le> a" and "a < 2 powi (e + 1)"
  shows "binade a = e"
proof -
  have pos: "0 < a" using assms(1) pow2_pos [of e] by linarith
  note b = binade_bounds [OF pos]
  have "\<not> binade a < e"
  proof
    assume "binade a < e"
    then have "(2::rat) powi (binade a + 1) \<le> 2 powi e" by (intro pow2_mono) simp
    with b(2) assms(1) show False by linarith
  qed
  moreover have "\<not> e < binade a"
  proof
    assume "e < binade a"
    then have "(2::rat) powi (e + 1) \<le> 2 powi (binade a)" by (intro pow2_mono) simp
    with b(1) assms(2) show False by linarith
  qed
  ultimately show ?thesis by simp
qed

lemma round_half_even_eqI:
  assumes "\<bar>of_int m - y\<bar> < 1 / 2"
  shows "round_half_even y = m"
proof (cases "of_int m \<le> y")
  case True
  with assms have "\<lfloor>y\<rfloor> = m" by (intro floor_unique) linarith+
  with assms True show ?thesis by (simp add: round_half_even_def Let_def)
next
  case False
  with assms have "\<lfloor>y\<rfloor> = m - 1" by (intro floor_unique) (simp, linarith)+
  with assms False show ?thesis by (simp add: round_half_even_def Let_def)
qed

lemma double_of_rat_eqI:
  assumes lo: "2 powi e \<le> x" and hi: "x < 2 powi (e + 1)"
    and e_lo: "- 1022 \<le> e" and e_hi: "e \<le> 1022"
    and m: "\<bar>of_int m - x / 2 powi (e - 52)\<bar> < 1 / 2"
  shows "double_of_rat x = Finite (of_int m * 2 powi (e - 52))"
proof -
  have pos: "0 < x" using lo pow2_pos [of e] by linarith
  define ulp :: rat where "ulp = 2 powi (e - 52)"
  have ulp_pos: "0 < ulp" unfolding ulp_def by (rule pow2_pos)
  have bin: "binade x = e" using lo hi by (rule binade_eqI)
  have rnd: "round_half_even (x / ulp) = m"
    using m unfolding ulp_def by (rule round_half_even_eqI)
  have "of_int m < x / ulp + 1 / 2" using m unfolding ulp_def by linarith
  then have "of_int m * ulp < (x / ulp + 1 / 2) * ulp"
    using ulp_pos by (simp only: mult_less_cancel_right_pos)
  also have "\<dots> = x + ulp / 2" using ulp_pos by (simp add: algebra_simps)
  finally have r1: "of_int m * ulp < x + ulp / 2" .
  have "ulp \<le> 2 powi (e + 1)" unfolding ulp_def by (intro pow2_mono) simp
  moreover have "(2::rat) powi (e + 1) \<le> 2 powi 1023" using e_hi by (intro pow2_mono) simp
  moreover have "(2::rat) powi 1023 + 2 powi 1023 = 2 ^ 1024" by simp
  ultimately have small: "\<not> 2 ^ 1024 \<le> of_int m * ulp"
    using r1 hi ulp_pos by linarith
  have mx: "max (binade x) (- 1022) = e" using e_lo bin by simp
  have nz: "x \<noteq> 0" and ab: "\<bar>x\<bar> = x" using pos by simp_all
  show ?thesis
    unfolding double_of_rat_def Let_def ab mx ulp_def [symmetric] rnd
    using nz pos small by (simp only: if_False if_True)
qed

text \<open>From \<open>2 powi 1024\<close> on, the result is the infinity.\<close>

lemma double_of_rat_overflow:
  assumes "2 powi 1024 \<le> x"
  shows "double_of_rat x = PosInf"
proof -
  have pos: "0 < x" using assms pow2_pos [of 1024] by linarith
  define e where "e = binade x"
  note b = binade_bounds [OF pos, folded e_def]
  have e_big: "1024 \<le> e"
  proof (rule ccontr)
    assume "\<not> 1024 \<le> e"
    then have "(2::rat) powi (e + 1) \<le> 2 powi 1024" by (intro pow2_mono) simp
    with b(2) assms show False by linarith
  qed
  define ulp :: rat where "ulp = 2 powi (e - 52)"
  have ulp_pos: "0 < ulp" unfolding ulp_def by (rule pow2_pos)
  define m where "m = round_half_even (x / ulp)"
  have "(2::rat) powi 52 = 2 powi e / ulp"
    unfolding ulp_def pow2_quot by simp
  also have "\<dots> \<le> x / ulp" using b(1) ulp_pos by (simp add: divide_right_mono)
  finally have y: "(2::rat) ^ 52 \<le> x / ulp" by simp
  have "\<bar>of_int m - x / ulp\<bar> \<le> 1 / 2" unfolding m_def by (rule round_half_even_err)
  with y have "(2::rat) ^ 52 - 1 / 2 \<le> of_int m" by linarith
  then have "(of_int (2 ^ 52 - 1) :: rat) < of_int m" by simp
  then have "2 ^ 52 - 1 < m" by (simp only: of_int_less_iff)
  then have "2 ^ 52 \<le> m" by simp
  then have "(of_int (2 ^ 52) :: rat) \<le> of_int m" by (simp only: of_int_le_iff)
  then have "(2::rat) powi 52 \<le> of_int m" by simp
  then have "2 powi 52 * ulp \<le> of_int m * ulp"
    using ulp_pos by (simp only: mult_le_cancel_right_pos)
  moreover have "(2::rat) powi 52 * ulp = 2 powi e"
  proof -
    have "(2::rat) powi (52 + (e - 52)) = 2 powi 52 * 2 powi (e - 52)"
      by (rule power_int_add) simp
    then show ?thesis by (simp add: ulp_def)
  qed
  moreover have "(2::rat) powi 1024 \<le> 2 powi e" using e_big by (rule pow2_mono)
  ultimately have big: "2 ^ 1024 \<le> of_int m * ulp" by simp
  have mx: "max (binade x) (- 1022) = e" using e_big by (simp add: e_def)
  have nz: "x \<noteq> 0" and ab: "\<bar>x\<bar> = x" using pos by simp_all
  show ?thesis
    unfolding double_of_rat_def Let_def ab mx ulp_def [symmetric] m_def [symmetric]
    using nz pos big by (simp only: if_False if_True)
qed

subsection \<open>The roundings the script performs\<close>

lemma double_1e_2: "double_of_rat (1 / 100) = Finite (5764607523034235 / 576460752303423488)"
  using double_of_rat_eqI [of "- 7" "1 / 100" 5764607523034235]
  by (simp add: power_int_minus)

lemma double_0_3: "double_of_rat (3 / 10) = Finite (5404319552844595 / 18014398509481984)"
  using double_of_rat_eqI [of "- 2" "3 / 10" 5404319552844595]
  by (simp add: power_int_minus)

lemma double_0_017: "double_of_rat (17 / 1000) = Finite (1224979098644775 / 72057594037927936)"
  using double_of_rat_eqI [of "- 6" "17 / 1000" 4899916394579100]
  by (simp add: power_int_minus)

lemma double_3_33e_9: "double_of_rat (333 / 100000000000) = Finite (4025722979316715 / 1208925819614629174706176)"
  using double_of_rat_eqI [of "- 29" "333 / 100000000000" 8051445958633430]
  by (simp add: power_int_minus)

lemma double_int_60: "double_of_rat (60) = Finite (60)"
  using double_of_rat_eqI [of "5" "60" 8444249301319680]
  by (simp add: power_int_minus)

lemma double_int_1: "double_of_rat (1) = Finite (1)"
  using double_of_rat_eqI [of "0" "1" 4503599627370496]
  by (simp add: power_int_minus)

lemma double_int_5: "double_of_rat (5) = Finite (5)"
  using double_of_rat_eqI [of "2" "5" 5629499534213120]
  by (simp add: power_int_minus)

lemma double_int_13: "double_of_rat (13) = Finite (13)"
  using double_of_rat_eqI [of "3" "13" 7318349394477056]
  by (simp add: power_int_minus)

lemma double_int_25: "double_of_rat (25) = Finite (25)"
  using double_of_rat_eqI [of "4" "25" 7036874417766400]
  by (simp add: power_int_minus)

lemma double_int_50: "double_of_rat (50) = Finite (50)"
  using double_of_rat_eqI [of "5" "50" 7036874417766400]
  by (simp add: power_int_minus)

lemma double_int_100: "double_of_rat (100) = Finite (100)"
  using double_of_rat_eqI [of "6" "100" 7036874417766400]
  by (simp add: power_int_minus)

lemma double_int_255: "double_of_rat (255) = Finite (255)"
  using double_of_rat_eqI [of "7" "255" 8972014882652160]
  by (simp add: power_int_minus)

lemma double_velocity_quotient: "double_of_rat (1152921504606847 / 6917529027641081856) = Finite (6148914691236517 / 36893488147419103232)"
  using double_of_rat_eqI [of "- 13" "1152921504606847 / 6917529027641081856" 6148914691236517]
  by (simp add: power_int_minus)

lemma double_velocity: "double_of_rat (33230699894622894483125290075615 / 664613997892457936451903530140172288) = Finite (1844674407370955 / 36893488147419103232)"
  using double_of_rat_eqI [of "- 15" "33230699894622894483125290075615 / 664613997892457936451903530140172288" 7378697629483820]
  by (simp add: power_int_minus)

lemma double_length_times_velocity: "double_of_rat (2259687592834356948311197510125 / 2658455991569831745807614120560689152) = Finite (8028023020878397 / 9444732965739290427392)"
  using double_of_rat_eqI [of "- 21" "2259687592834356948311197510125 / 2658455991569831745807614120560689152" 8028023020878397]
  by (simp add: power_int_minus)

lemma double_dispersion_1: "double_of_rat (8028023020878397 / 9444732965739290427392) = Finite (8028023020878397 / 9444732965739290427392)"
  using double_of_rat_eqI [of "- 21" "8028023020878397 / 9444732965739290427392" 8028023020878397]
  by (simp add: power_int_minus)

lemma double_dispersion_5: "double_of_rat (8028023020878397 / 47223664828696452136960) = Finite (3211209208351359 / 18889465931478580854784)"
  using double_of_rat_eqI [of "- 23" "8028023020878397 / 47223664828696452136960" 6422418416702718]
  by (simp add: power_int_minus)

lemma double_peclet_5: "double_of_rat (16056046041756794 / 3211209208351359) = Finite (5)"
  using double_of_rat_eqI [of "2" "16056046041756794 / 3211209208351359" 5629499534213120]
  by (simp add: power_int_minus)

lemma double_dispersion_13: "double_of_rat (8028023020878397 / 122781528554610775556096) = Finite (2470160929501045 / 37778931862957161709568)"
  using double_of_rat_eqI [of "- 24" "8028023020878397 / 122781528554610775556096" 4940321859002090]
  by (simp add: power_int_minus)

lemma double_peclet_13: "double_of_rat (32112092083513588 / 2470160929501045) = Finite (7318349394477057 / 562949953421312)"
  using double_of_rat_eqI [of "3" "32112092083513588 / 2470160929501045" 7318349394477057]
  by (simp add: power_int_minus)

lemma double_dispersion_25: "double_of_rat (8028023020878397 / 236118324143482260684800) = Finite (2568967366681087 / 75557863725914323419136)"
  using double_of_rat_eqI [of "- 25" "8028023020878397 / 236118324143482260684800" 5137934733362174]
  by (simp add: power_int_minus)

lemma double_peclet_25: "double_of_rat (64224184167027176 / 2568967366681087) = Finite (25)"
  using double_of_rat_eqI [of "4" "64224184167027176 / 2568967366681087" 7036874417766400]
  by (simp add: power_int_minus)

lemma double_dispersion_50: "double_of_rat (8028023020878397 / 472236648286964521369600) = Finite (2568967366681087 / 151115727451828646838272)"
  using double_of_rat_eqI [of "- 26" "8028023020878397 / 472236648286964521369600" 5137934733362174]
  by (simp add: power_int_minus)

lemma double_peclet_50: "double_of_rat (128448368334054352 / 2568967366681087) = Finite (50)"
  using double_of_rat_eqI [of "5" "128448368334054352 / 2568967366681087" 7036874417766400]
  by (simp add: power_int_minus)

lemma double_dispersion_100: "double_of_rat (8028023020878397 / 944473296573929042739200) = Finite (2568967366681087 / 302231454903657293676544)"
  using double_of_rat_eqI [of "- 27" "8028023020878397 / 944473296573929042739200" 5137934733362174]
  by (simp add: power_int_minus)

lemma double_peclet_100: "double_of_rat (256896736668108704 / 2568967366681087) = Finite (100)"
  using double_of_rat_eqI [of "6" "256896736668108704 / 2568967366681087" 7036874417766400]
  by (simp add: power_int_minus)

lemma double_dispersion_255: "double_of_rat (8028023020878397 / 2408406906263519058984960) = Finite (1007438183012191 / 302231454903657293676544)"
  using double_of_rat_eqI [of "- 29" "8028023020878397 / 2408406906263519058984960" 8059505464097528]
  by (simp add: power_int_minus)

lemma double_peclet_255: "double_of_rat (256896736668108704 / 1007438183012191) = Finite (255)"
  using double_of_rat_eqI [of "7" "256896736668108704 / 1007438183012191" 8972014882652160]
  by (simp add: power_int_minus)

lemma double_peclet_assembled: "double_of_rat (1027586946672434816 / 4025722979316715) = Finite (8980995878530691 / 35184372088832)"
  using double_of_rat_eqI [of "7" "1027586946672434816 / 4025722979316715" 8980995878530691]
  by (simp add: power_int_minus)

lemmas double_closed =
  double_1e_2 double_0_3 double_0_017 double_3_33e_9 double_int_60 double_int_1
  double_int_5 double_int_13 double_int_25 double_int_50 double_int_100 double_int_255
  double_velocity_quotient double_velocity double_length_times_velocity
  double_dispersion_1 double_dispersion_5 double_peclet_5 double_dispersion_13
  double_peclet_13 double_dispersion_25 double_peclet_25 double_dispersion_50
  double_peclet_50 double_dispersion_100 double_peclet_100 double_dispersion_255
  double_peclet_255 double_peclet_assembled

text \<open>The numerator is the double nearest to 8.5e-07.\<close>

lemma numerator_double_column:
  "numerator_double column = Inr (Finite (8028023020878397 / 9444732965739290427392))"
  by (simp add: numerator_double_def column_length num_attr_def py_float_def double_closed)

lemma numerator_bounds:
  "2 powi (- 21) \<le> (8028023020878397 / 9444732965739290427392 :: rat)"
  "(8028023020878397 / 9444732965739290427392 :: rat) \<le> 2 powi (- 20)"
  "\<bar>8028023020878397 / 9444732965739290427392 - 17 / 1000 * (3 / 10 * ((1 / 10 ^ 2) / 60))\<bar>
     \<le> (17 / 1000 * (3 / 10 * ((1 / 10 ^ 2) / 60))) / (2 ^ 53 :: rat)"
  by (simp_all add: power_int_minus)

text \<open>
  In doubles the six swept Peclet numbers come back exactly, 13 does not (it comes back
  as \<open>13 + 1 / 2 ^ 49\<close>), and the assembled dispersion 3.33e-9 gives 255.2552...
\<close>

lemma sweep_roundtrip_double_1:
  "assign_dispersion_double (PyInt 1) column = Inr [Finite (8028023020878397 / 9444732965739290427392)]"
  "peclet_number_double column [Finite (8028023020878397 / 9444732965739290427392)] = Inr (Finite (1))"
  by (simp_all add: assign_dispersion_double_def peclet_number_double_def numerator_double_column
      py_float_def double_closed column_n_comp py_index_def)

lemma sweep_roundtrip_double_5:
  "assign_dispersion_double (PyInt 5) column = Inr [Finite (3211209208351359 / 18889465931478580854784)]"
  "peclet_number_double column [Finite (3211209208351359 / 18889465931478580854784)] = Inr (Finite (5))"
  by (simp_all add: assign_dispersion_double_def peclet_number_double_def numerator_double_column
      py_float_def double_closed column_n_comp py_index_def)

lemma sweep_roundtrip_double_25:
  "assign_dispersion_double (PyInt 25) column = Inr [Finite (2568967366681087 / 75557863725914323419136)]"
  "peclet_number_double column [Finite (2568967366681087 / 75557863725914323419136)] = Inr (Finite (25))"
  by (simp_all add: assign_dispersion_double_def peclet_number_double_def numerator_double_column
      py_float_def double_closed column_n_comp py_index_def)

lemma sweep_roundtrip_double_50:
  "assign_dispersion_double (PyInt 50) column = Inr [Finite (2568967366681087 / 151115727451828646838272)]"
  "peclet_number_double column [Finite (2568967366681087 / 151115727451828646838272)] = Inr (Finite (50))"
  by (simp_all add: assign_dispersion_double_def peclet_number_double_def numerator_double_column
      py_float_def double_closed column_n_comp py_index_def)

lemma sweep_roundtrip_double_100:
  "assign_dispersion_double (PyInt 100) column = Inr [Finite (2568967366681087 / 302231454903657293676544)]"
  "peclet_number_double column [Finite (2568967366681087 / 302231454903657293676544)] = Inr (Finite (100))"
  by (simp_all add: assign_dispersion_double_def peclet_number_double_def numerator_double_column
      py_float_def double_closed column_n_comp py_index_def)

lemma sweep_roundtrip_double_255:
  "assign_dispersion_double (PyInt 255) column = Inr [Finite (1007438183012191 / 302231454903657293676544)]"
  "peclet_number_double column [Finite (1007438183012191 / 302231454903657293676544)] = Inr (Finite (255))"
  by (simp_all add: assign_dispersion_double_def peclet_number_double_def numerator_double_column
      py_float_def double_closed column_n_comp py_index_def)

lemma roundtrip_double_13_inexact:
  "assign_dispersion_double (PyInt 13) column = Inr [Finite (2470160929501045 / 37778931862957161709568)]"
  "peclet_number_double column [Finite (2470160929501045 / 37778931862957161709568)] = Inr (Finite (7318349394477057 / 562949953421312))"
  by (simp_all add: assign_dispersion_double_def peclet_number_double_def numerator_double_column
      py_float_def double_closed column_n_comp py_index_def)

lemma peclet_number_double_assembled:
  "peclet_number_double column [Finite (4025722979316715 / 1208925819614629174706176)] = Inr (Finite (8980995878530691 / 35184372088832))"
  by (simp add: peclet_number_double_def numerator_double_column double_closed py_index_def)

subsection \<open>Two divisions in a row: the error of the round trip\<close>

lemma float_truediv_normal:
  assumes "0 < y" and "2 powi (- 1022) \<le> x / y" and "x / y \<le> 2 powi 1023"
  shows "\<exists>r. float_truediv (Finite x) (Finite y) = Inr (Finite r)
              \<and> \<bar>r - x / y\<bar> \<le> (x / y) / 2 ^ 53"
proof -
  from double_of_rat_normal [OF assms(2) assms(3)] obtain r where
    "double_of_rat (x / y) = Finite r" and "\<bar>r - x / y\<bar> \<le> (x / y) / 2 ^ 53"
    by blast
  with assms(1) show ?thesis by simp
qed

lemma first_division_error:
  fixes n p d :: rat
  assumes "0 < n" and "0 < p" and "\<bar>d - n / p\<bar> \<le> (n / p) / 2 ^ 53"
  shows "0 < d" and "p / 2 \<le> n / d" and "n / d \<le> 2 * p" and "\<bar>n / d - p\<bar> \<le> p / 2 ^ 52"
proof -
  define q where "q = n / p"
  have q_pos: "0 < q" using assms(1,2) by (simp add: q_def)
  have npq: "n = p * q" using assms(2) by (simp add: q_def)
  have d_err: "\<bar>d - q\<bar> \<le> q / 2 ^ 53" using assms(3) by (simp add: q_def)
  have u_half: "q / 2 ^ 53 \<le> q / 2"
    using q_pos by (intro divide_left_mono) simp_all
  have d_lo: "q / 2 \<le> d" using d_err u_half by linarith
  show d_pos: "0 < d" using d_lo q_pos by linarith
  define q2 where "q2 = n / d"
  have nq2: "n = q2 * d" using d_pos by (simp add: q2_def)
  have dev: "\<bar>q2 - p\<bar> \<le> p / 2 ^ 52"
  proof -
    have "\<bar>n - p * d\<bar> = p * \<bar>q - d\<bar>"
      using assms(2) by (simp add: npq abs_mult right_diff_distrib [symmetric])
    also have "\<dots> \<le> p * (q / 2 ^ 53)"
      using d_err assms(2) by (simp add: abs_minus_commute)
    also have "\<dots> \<le> p * (2 * d / 2 ^ 53)"
      using d_lo assms(2) by (simp add: divide_right_mono)
    also have "\<dots> = (p / 2 ^ 52) * d"
      by simp
    finally have "\<bar>n - p * d\<bar> \<le> (p / 2 ^ 52) * d" .
    moreover have "\<bar>n - p * d\<bar> = \<bar>q2 - p\<bar> * d"
      using d_pos by (simp add: nq2 abs_mult left_diff_distrib [symmetric])
    ultimately have "\<bar>q2 - p\<bar> * d \<le> (p / 2 ^ 52) * d" by simp
    then show ?thesis using d_pos by (simp only: mult_le_cancel_right_pos)
  qed
  then show "\<bar>n / d - p\<bar> \<le> p / 2 ^ 52" by (simp only: q2_def)
  have s1: "p / 2 ^ 52 \<le> p / 2"
    using assms(2) by (intro divide_left_mono) simp_all
  have s2: "p / 2 \<le> p" using assms(2) by simp
  from dev s1 s2 have "p / 2 \<le> q2" and "q2 \<le> 2 * p"
    by linarith+
  then show "p / 2 \<le> n / d" and "n / d \<le> 2 * p"
    by (simp_all only: q2_def)
qed

lemma second_division_error:
  fixes p p' q2 :: rat
  assumes "0 < p" and "q2 \<le> 2 * p" and "\<bar>q2 - p\<bar> \<le> p / 2 ^ 52"
    and "\<bar>p' - q2\<bar> \<le> q2 / 2 ^ 53"
  shows "\<bar>p' - p\<bar> \<le> p / 2 ^ 51"
proof -
  have "q2 / 2 ^ 53 \<le> (2 * p) / 2 ^ 53"
    using assms(2) by (simp add: divide_right_mono)
  then have e2: "\<bar>p' - q2\<bar> \<le> p / 2 ^ 52"
    using assms(4) by simp
  have "\<bar>p' - p\<bar> \<le> \<bar>p' - q2\<bar> + \<bar>q2 - p\<bar>" by simp
  also have "\<dots> \<le> p / 2 ^ 52 + p / 2 ^ 52" using e2 assms(3) by linarith
  also have "\<dots> = p / 2 ^ 51" by simp
  finally show ?thesis .
qed

lemma roundtrip_double:
  fixes n p :: rat
  assumes n_lo: "2 powi (- 21) \<le> n" and n_hi: "n \<le> 2 powi (- 20)"
    and p_lo: "2 powi (- 1021) \<le> p" and p_hi: "p \<le> 2 powi 1001"
  shows "\<exists>d p'. float_truediv (Finite n) (Finite p) = Inr (Finite d)
           \<and> \<bar>d - n / p\<bar> \<le> (n / p) / 2 ^ 53
           \<and> float_truediv (Finite n) (Finite d) = Inr (Finite p')
           \<and> \<bar>p' - p\<bar> \<le> p / 2 ^ 51"
proof -
  have n_pos: "0 < n" using n_lo pow2_pos [of "- 21"] by linarith
  have p_pos: "0 < p" using p_lo pow2_pos [of "- 1021"] by linarith
  have q_hi: "n / p \<le> 2 powi 1023"
  proof -
    have "n / p \<le> 2 powi (- 20) / 2 powi (- 1021)"
      using n_hi p_lo n_pos pow2_pos [of "- 1021"] by (intro frac_le) linarith+
    also have "\<dots> = (2::rat) powi (- 20 - (- 1021))" by (rule pow2_quot)
    also have "\<dots> \<le> (2::rat) powi 1023" by (rule pow2_mono) simp
    finally show ?thesis .
  qed
  have q_lo: "2 powi (- 1022) \<le> n / p"
  proof -
    have "(2::rat) powi (- 1022) = 2 powi (- 21 - 1001)" by simp
    also have "\<dots> = 2 powi (- 21) / 2 powi 1001" by (rule pow2_quot [symmetric])
    also have "\<dots> \<le> n / p"
      using n_lo p_hi p_pos pow2_pos [of "- 21"] by (intro frac_le) linarith+
    finally show ?thesis .
  qed
  from float_truediv_normal [OF p_pos q_lo q_hi]
  obtain d where d: "float_truediv (Finite n) (Finite p) = Inr (Finite d)"
    and d_err: "\<bar>d - n / p\<bar> \<le> (n / p) / 2 ^ 53"
    by blast
  note f = first_division_error [OF n_pos p_pos d_err]
  have q2_hi: "n / d \<le> 2 powi 1023"
  proof -
    have "2 * p \<le> 2 * 2 powi 1001" using p_hi by simp
    also have "\<dots> = (2::rat) powi 1 * 2 powi 1001" by simp
    also have "\<dots> = (2::rat) powi (1 + 1001)"
      by (rule power_int_add [symmetric]) simp
    also have "\<dots> \<le> 2 powi 1023" by (rule pow2_mono) simp
    finally show ?thesis using f(3) by linarith
  qed
  have q2_lo: "2 powi (- 1022) \<le> n / d"
  proof -
    have "(2::rat) powi (- 1022) = 2 powi (- 1021 - 1)" by simp
    also have "\<dots> = 2 powi (- 1021) / 2 powi 1" by (rule pow2_quot [symmetric])
    also have "\<dots> = 2 powi (- 1021) / 2" by simp
    also have "\<dots> \<le> p / 2" using p_lo by simp
    finally show ?thesis using f(2) by linarith
  qed
  from float_truediv_normal [OF f(1) q2_lo q2_hi]
  obtain p' where p': "float_truediv (Finite n) (Finite d) = Inr (Finite p')"
    and p'_err: "\<bar>p' - n / d\<bar> \<le> (n / d) / 2 ^ 53"
    by blast
  have "\<bar>p' - p\<bar> \<le> p / 2 ^ 51"
    using p_pos f(3) f(4) p'_err by (rule second_division_error)
  with d d_err p' show ?thesis by blast
qed

section \<open>The claims\<close>

text \<open>
  In exact arithmetic the round trip is exact for every positive Peclet number, whatever
  the column's axial dispersion was before.
\<close>

lemma dispersion_peclet_roundtrip_exact:
  assumes "0 < pe"
  shows "assign_dispersion pe (column\<lparr>axial_dispersion := ds\<rparr>) =
           Inr (column\<lparr>axial_dispersion :=
                  Some [(17 / 1000 * (3 / 10 * ((1 / 10 ^ 2) / 60))) / pe]\<rparr>)
         \<and> peclet_number (column\<lparr>axial_dispersion :=
                  Some [(17 / 1000 * (3 / 10 * ((1 / 10 ^ 2) / 60))) / pe]\<rparr>) = Inr pe
         \<and> length_attr column = Some (17 / 1000)"
proof -
  from assms have nz: "pe \<noteq> 0" by simp
  have a: "assign_dispersion pe (column\<lparr>axial_dispersion := ds\<rparr>) = Inr (sweep_column pe)"
    using nz by (rule assign_dispersion_column)
  have b: "peclet_number (sweep_column pe) = Inr pe"
    using nz by (rule peclet_sweep_column)
  from a b show ?thesis
    by (simp add: sweep_column_def column_length)
qed

text \<open>
  C1, as amended: for every Peclet number (an int or a float) whose double value \<open>p\<close>
  lies between \<open>2 powi (- 1021)\<close> and \<open>2 powi 1001\<close>, which includes the six swept
  values, line 143 stores a finite double \<open>d\<close> that differs from
  (0.017 * (0.3 * (1e-2 / 60))) / p by at most a relative \<open>2 powi (- 51)\<close>, and line 124
  applied to the column with that dispersion returns a finite double \<open>p'\<close> that differs
  from \<open>p\<close> by at most a relative \<open>2 powi (- 51)\<close>.
\<close>

theorem dispersion_roundtrip_binary64:
  assumes conv: "py_float pe = Inr (Finite p)"
    and p_lo: "2 powi (- 1021) \<le> p" and p_hi: "p \<le> 2 powi 1001"
  shows "\<exists>d p'. assign_dispersion_double pe column = Inr [Finite d]
           \<and> \<bar>d - (17 / 1000 * (3 / 10 * ((1 / 10 ^ 2) / 60))) / p\<bar>
               \<le> ((17 / 1000 * (3 / 10 * ((1 / 10 ^ 2) / 60))) / p) / 2 ^ 51
           \<and> peclet_number_double column [Finite d] = Inr (Finite p')
           \<and> \<bar>p' - p\<bar> \<le> p / 2 ^ 51"
proof -
  define n :: rat where "n = 8028023020878397 / 9444732965739290427392"
  define x :: rat where "x = 17 / 1000 * (3 / 10 * ((1 / 10 ^ 2) / 60))"
  have num: "numerator_double column = Inr (Finite n)"
    unfolding n_def by (rule numerator_double_column)
  have n_lo: "2 powi (- 21) \<le> n" and n_hi: "n \<le> 2 powi (- 20)"
    and n_err: "\<bar>n - x\<bar> \<le> x / 2 ^ 53"
    unfolding n_def x_def by (rule numerator_bounds)+
  have p_pos: "0 < p" using p_lo pow2_pos [of "- 1021"] by linarith
  have x_pos: "0 < x" by (simp add: x_def)
  from roundtrip_double [OF n_lo n_hi p_lo p_hi] obtain d p' where
    d: "float_truediv (Finite n) (Finite p) = Inr (Finite d)"
    and d_err: "\<bar>d - n / p\<bar> \<le> (n / p) / 2 ^ 53"
    and p': "float_truediv (Finite n) (Finite d) = Inr (Finite p')"
    and p'_err: "\<bar>p' - p\<bar> \<le> p / 2 ^ 51"
    by blast
  have a: "assign_dispersion_double pe column = Inr [Finite d]"
    unfolding assign_dispersion_double_def num conv
    by (simp only: sum.case d column_n_comp) simp
  have b: "peclet_number_double column [Finite d] = Inr (Finite p')"
    unfolding peclet_number_double_def num
    by (simp only: sum.case py_index_def length_Cons list.size nth_Cons_0 if_True
        zero_less_Suc p')
  have q_pos: "0 < x / p" using x_pos p_pos by simp
  have "\<bar>n / p - x / p\<bar> = \<bar>n - x\<bar> / p"
    using p_pos by (simp add: diff_divide_distrib [symmetric])
  also have "\<dots> \<le> (x / 2 ^ 53) / p"
    using n_err p_pos by (simp only: divide_right_mono less_imp_le)
  also have "\<dots> = (x / p) / 2 ^ 53" by simp
  finally have nq: "\<bar>n / p - x / p\<bar> \<le> (x / p) / 2 ^ 53" .
  have "\<bar>d - x / p\<bar> \<le> (x / p) / 2 ^ 51"
    using d_err nq q_pos by (simp add: abs_le_iff)
  with a b p'_err show ?thesis
    unfolding x_def by blast
qed

text \<open>The instance of the int 255, the last value of the sweep.\<close>

theorem dispersion_roundtrip_binary64_witness:
  "py_float (PyInt 255) = Inr (Finite 255)
   \<and> 2 powi (- 1021) \<le> (255 :: rat) \<and> (255 :: rat) \<le> 2 powi 1001
   \<and> (\<exists>d p'. assign_dispersion_double (PyInt 255) column = Inr [Finite d]
           \<and> \<bar>d - (17 / 1000 * (3 / 10 * ((1 / 10 ^ 2) / 60))) / 255\<bar>
               \<le> ((17 / 1000 * (3 / 10 * ((1 / 10 ^ 2) / 60))) / 255) / 2 ^ 51
           \<and> peclet_number_double column [Finite d] = Inr (Finite p')
           \<and> \<bar>p' - 255\<bar> \<le> 255 / 2 ^ 51)"
proof -
  have lo: "2 powi (- 1021) \<le> (255 :: rat)"
  proof -
    have "(2::rat) powi (- 1021) \<le> 2 powi 0" by (rule pow2_mono) simp
    then show ?thesis by simp
  qed
  have hi: "(255 :: rat) \<le> 2 powi 1001"
  proof -
    have "(2::rat) powi 8 \<le> 2 powi 1001" by (rule pow2_mono) simp
    moreover have "(255 :: rat) \<le> 2 powi 8" by simp
    ultimately show ?thesis by linarith
  qed
  have conv: "py_float (PyInt 255) = Inr (Finite 255)"
    by (simp add: py_float_def double_closed)
  from dispersion_roundtrip_binary64 [OF conv lo hi] conv lo hi
  show ?thesis by blast
qed

text \<open>
  C1 as it was stated, for every positive Peclet number, fails in doubles: for the
  positive int \<open>10 ^ 400\<close> line 143 raises OverflowError, and for the positive double
  \<open>1 / 2 ^ 1060\<close> it stores \<open>inf\<close>, from which line 124 reads back 0.0.
\<close>

theorem dispersion_roundtrip_range_counterexample:
  "(0 :: int) < 10 ^ 400
   \<and> assign_dispersion_double (PyInt (10 ^ 400)) column = Inl OverflowError
   \<and> (0 :: rat) < 1 / 2 ^ 1060
   \<and> assign_dispersion_double (PyFloat (Finite (1 / 2 ^ 1060))) column = Inr [PosInf]
   \<and> peclet_number_double column [PosInf] = Inr (Finite 0)"
proof -
  have "double_of_rat (of_int (10 ^ 400)) = PosInf"
    by (rule double_of_rat_overflow) simp
  then have big: "py_float (PyInt (10 ^ 400)) = Inl OverflowError"
    by (simp add: py_float_def)
  have a: "assign_dispersion_double (PyInt (10 ^ 400)) column = Inl OverflowError"
    unfolding assign_dispersion_double_def numerator_double_column big
    by (simp only: sum.case)
  have "double_of_rat ((8028023020878397 / 9444732965739290427392) / (1 / 2 ^ 1060)) = PosInf"
    by (rule double_of_rat_overflow) simp
  then have "float_truediv (Finite (8028023020878397 / 9444732965739290427392)) (Finite (1 / 2 ^ 1060)) = Inr PosInf"
    by simp
  moreover have "py_float (PyFloat (Finite (1 / 2 ^ 1060))) = Inr (Finite (1 / 2 ^ 1060))"
    by (simp add: py_float_def)
  ultimately have b: "assign_dispersion_double (PyFloat (Finite (1 / 2 ^ 1060))) column = Inr [PosInf]"
    unfolding assign_dispersion_double_def numerator_double_column
    by (simp only: sum.case column_n_comp) simp
  have c: "peclet_number_double column [PosInf] = Inr (Finite 0)"
    by (simp add: peclet_number_double_def numerator_double_column py_index_def)
  from a b c show ?thesis by simp
qed

text \<open>
  C2: the process carries exactly two events, in this order: \<open>pulse_start\<close> on
  \<open>flow_sheet.inlet.c\<close> with value \<open>c_pulse = [1.0]\<close> at time 0 (the default of the omitted
  time argument), and \<open>pulse_stop\<close> on \<open>flow_sheet.inlet.c\<close> with value
  \<open>c_initial = [0.0]\<close> at time \<open>pulse_duration\<close> = 1200 s.
\<close>

theorem process_events:
  "events process =
     [\<lparr>event_name = ''pulse_start'', parameter_path = ''flow_sheet.inlet.c'',
       state = [1], time = 0\<rparr>,
      \<lparr>event_name = ''pulse_stop'', parameter_path = ''flow_sheet.inlet.c'',
       state = [0], time = 1200\<rparr>]
   \<and> c_pulse = [1] \<and> c_initial = [0] \<and> pulse_duration = 1200"
  by (simp add: process_def Process_init_def add_event_def c_pulse_def c_initial_def
      pulse_duration_def)

text \<open>
  C3: the sweep block iterates the Peclet numbers 1, 5, 25, 50, 100, 255 in this order.
  Started in the assembled state (with any trace \<open>es\<close> so far), and provided the six
  simulator calls succeed with results \<open>r1\<close> to \<open>r6\<close>, it opens the 3 by 2 grid and then,
  for the i-th value: calls the simulator on the process whose column already carries
  the recomputed dispersion and which is otherwise the assembled one, plots that result
  into the i-th panel (row-major), and titles the panel with the Peclet number; it ends
  with \<open>tight_layout\<close>. In the final state only the column's axial dispersion (and the
  trace) differ from the assembled state.
\<close>

theorem sweep_driver_trace:
  assumes "sim (snapshot_with a (sweep_column 1)) = Some r1"
    and "sim (snapshot_with a (sweep_column 5)) = Some r2"
    and "sim (snapshot_with a (sweep_column 25)) = Some r3"
    and "sim (snapshot_with a (sweep_column 50)) = Some r4"
    and "sim (snapshot_with a (sweep_column 100)) = Some r5"
    and "sim (snapshot_with a (sweep_column 255)) = Some r6"
  shows "peclet_numbers = [1, 5, 25, 50, 100, 255] \<and>
         second_block sim ((assembled a)\<lparr>effects := es\<rparr>) =
           Inr ((assembled a)
                 \<lparr>g_column := sweep_column 255,
                  effects := es @
                  [Subplots 3 2 [10, 12],
                   Simulate (snapshot_with a (sweep_column 1)), Plot r1 (Some (0, 0)),
                   SetTitle (0, 0) ''Peclet number: 1'',
                   Simulate (snapshot_with a (sweep_column 5)), Plot r2 (Some (0, 1)),
                   SetTitle (0, 1) ''Peclet number: 5'',
                   Simulate (snapshot_with a (sweep_column 25)), Plot r3 (Some (1, 0)),
                   SetTitle (1, 0) ''Peclet number: 25'',
                   Simulate (snapshot_with a (sweep_column 50)), Plot r4 (Some (1, 1)),
                   SetTitle (1, 1) ''Peclet number: 50'',
                   Simulate (snapshot_with a (sweep_column 100)), Plot r5 (Some (2, 0)),
                   SetTitle (2, 0) ''Peclet number: 100'',
                   Simulate (snapshot_with a (sweep_column 255)), Plot r6 (Some (2, 1)),
                   SetTitle (2, 1) ''Peclet number: 255'',
                   TightLayout]\<rparr>)"
proof -
  have u: "(assembled a)\<lparr>g_column := col, effects := es'\<rparr> = sweep_state a col es'" for col es'
    by (simp add: assembled_def sweep_state_def)
  show ?thesis
    by (simp only: u assembled_effects second_block_sweep [OF assms])
       (simp add: peclet_numbers_def)
qed

text \<open>The instance with the simulator that returns the process it was given.\<close>

theorem sweep_driver_trace_witness:
  "second_block echo_simulator ((assembled example_area)\<lparr>effects := []\<rparr>) =
     Inr ((assembled example_area)
           \<lparr>g_column := sweep_column 255,
            effects :=
            [Subplots 3 2 [10, 12],
             Simulate (snapshot_with example_area (sweep_column 1)),
             Plot (snapshot_with example_area (sweep_column 1)) (Some (0, 0)),
             SetTitle (0, 0) ''Peclet number: 1'',
             Simulate (snapshot_with example_area (sweep_column 5)),
             Plot (snapshot_with example_area (sweep_column 5)) (Some (0, 1)),
             SetTitle (0, 1) ''Peclet number: 5'',
             Simulate (snapshot_with example_area (sweep_column 25)),
             Plot (snapshot_with example_area (sweep_column 25)) (Some (1, 0)),
             SetTitle (1, 0) ''Peclet number: 25'',
             Simulate (snapshot_with example_area (sweep_column 50)),
             Plot (snapshot_with example_area (sweep_column 50)) (Some (1, 1)),
             SetTitle (1, 1) ''Peclet number: 50'',
             Simulate (snapshot_with example_area (sweep_column 100)),
             Plot (snapshot_with example_area (sweep_column 100)) (Some (2, 0)),
             SetTitle (2, 0) ''Peclet number: 100'',
             Simulate (snapshot_with example_area (sweep_column 255)),
             Plot (snapshot_with example_area (sweep_column 255)) (Some (2, 1)),
             SetTitle (2, 1) ''Peclet number: 255'',
             TightLayout]\<rparr>)"
  using sweep_driver_trace [of echo_simulator example_area _ _ _ _ _ _ "[]",
      OF echo_simulator_ok echo_simulator_ok echo_simulator_ok echo_simulator_ok
        echo_simulator_ok echo_simulator_ok]
  by simp

text \<open>
  C4, as amended: when the module runs under a name other than \<open>__main__\<close> (an import),
  neither guarded block runs, so the simulator is never called and nothing is plotted,
  and the objects are left as assembled; the one observable effect is line 109, which is
  outside the guard and prints the module name.
\<close>

theorem import_prints_module_name:
  assumes "nm \<noteq> ''__main__''"
  shows "run_module a sim nm = Inr ((assembled a)\<lparr>effects := [Print nm]\<rparr>)"
  using assms by (rule run_module_import)

text \<open>The instance of an import under the name \<open>pulse_example\<close>.\<close>

theorem import_prints_module_name_witness:
  "''pulse_example'' \<noteq> ''__main__''
   \<and> run_module example_area echo_simulator ''pulse_example'' =
       Inr ((assembled example_area)\<lparr>effects := [Print ''pulse_example'']\<rparr>)"
  using import_prints_module_name [of "''pulse_example''" example_area echo_simulator]
  by simp

text \<open>
  C4 as it was stated (an import has no observable effect) fails: imported as
  \<open>GRM_for_linear_LC\<close>, the module prints its name, so its trace is not empty.
\<close>

theorem import_not_silent_counterexample:
  "run_module example_area echo_simulator ''GRM_for_linear_LC'' =
     Inr ((assembled example_area)\<lparr>effects := [Print ''GRM_for_linear_LC'']\<rparr>)
   \<and> effects ((assembled example_area)\<lparr>effects := [Print ''GRM_for_linear_LC'']\<rparr>)
       \<noteq> ([] :: snapshot effect list)"
  using run_module_import [of "''GRM_for_linear_LC''" example_area echo_simulator]
  by simp

text \<open>
  C5: for the column of the script (length 0.017, dispersion 3.33e-9) and the velocity
  0.3 * (1e-2 / 60), line 124 computes the Peclet number 85000 / 333 = 255.2552...,
  which is within 0.3 of 255.
\<close>

theorem peclet_number_about_255:
  "peclet_number column = Inr (85000 / 333)
   \<and> (case peclet_number column of Inl e \<Rightarrow> False | Inr pe \<Rightarrow> \<bar>pe - 255\<bar> < 3 / 10)"
  by (simp add: peclet_number_column)

text \<open>
  C6: the inlet's flow rate is the column's interstitial cross-section area (whatever
  the library computes for the column as assembled at line 79) times the interstitial
  velocity 0.3 * (1e-2 / 60).
\<close>

theorem inlet_flow_rate:
  "flow_rate (g_inlet (assembled a)) =
     Some (a (g_column (assembled a)) * (3 / 10 * ((1 / 10 ^ 2) / 60)))
   \<and> flow_rate (inlet a) = Some (a column * (3 / 10 * ((1 / 10 ^ 2) / 60)))"
  by (simp add: assembled_def inlet_def Inlet_init_def)

text \<open>
  C7: the events are \<open>pulse_start\<close> at time 0 and \<open>pulse_stop\<close> at time \<open>pulse_duration\<close>
  = 1200 s, the cycle time is 6000 s, 0 < 1200 \<le> 6000, and every event time lies in
  the interval from 0 to the cycle time.
\<close>

theorem event_times_ordered:
  "map (\<lambda>e. (event_name e, time e)) (events process) =
     [(''pulse_start'', 0), (''pulse_stop'', pulse_duration)]
   \<and> pulse_duration = 1200
   \<and> cycle_time process = Some 6000
   \<and> (0::rat) < pulse_duration \<and> pulse_duration \<le> 6000
   \<and> list_all (\<lambda>e. 0 \<le> time e \<and>
         (case cycle_time process of None \<Rightarrow> False | Some T \<Rightarrow> time e \<le> T))
       (events process)"
  by (simp add: process_def Process_init_def add_event_def pulse_duration_def)

text \<open>
  C8: the column belongs to a one-component system; \<open>film_diffusion\<close> and
  \<open>pore_diffusion\<close> have exactly one entry each, and \<open>surface_diffusion\<close> has
  \<open>n_bound_states\<close> entries, which is one.
\<close>

theorem diffusion_array_lengths:
  "n_comp column = 1
   \<and> map_option length (film_diffusion column) = Some 1
   \<and> map_option length (pore_diffusion column) = Some 1
   \<and> map_option length (surface_diffusion column) = Some (n_bound_states column)
   \<and> n_bound_states column = 1"
  by (simp add: column_def Let_def GeneralRateModel_init_def set_axial_dispersion_def n_comp_def
      n_bound_states_def n_bound_states_bm_def binding_model_def Linear_init_def
      n_comp_component_system)

text \<open>
  C9: when the module has run to its end as \<open>__main__\<close> (so every simulator call
  succeeded and the loop made its six iterations), the column's axial dispersion is the
  value computed for the last Peclet number, (0.017 * (0.3 * (1e-2 / 60))) / 255; the
  assembled value was 3.33e-9, and the two differ: the original is not restored.
\<close>

theorem final_dispersion_not_restored:
  assumes "run_module a sim ''__main__'' = Inr st"
  shows "axial_dispersion (g_column st) =
           Some [(17 / 1000 * (3 / 10 * ((1 / 10 ^ 2) / 60))) / 255]
         \<and> axial_dispersion column = Some [333 / 10 ^ 11]
         \<and> axial_dispersion (g_column st) \<noteq> axial_dispersion column"
proof -
  from assms obtain r where
    "second_block sim (sweep_state a column
        [Print ''__main__'', Simulate (snapshot_with a column), Plot r None]) = Inr st"
    by (auto simp add: run_module_main split: option.splits)
  from second_block_inv [OF this] obtain es' where
    "st = sweep_state a (sweep_column 255) es'" by blast
  then show ?thesis
    by (simp add: sweep_column_def column_axial_dispersion)
qed

text \<open>
  The instance with the simulator that always succeeds: the run reaches its end, and
  the final dispersion is 1 / 300000000.
\<close>

theorem final_dispersion_not_restored_witness:
  "(case run_module example_area echo_simulator ''__main__'' of
      Inl e \<Rightarrow> False
    | Inr st \<Rightarrow> axial_dispersion (g_column st) = Some [1 / 300000000]
               \<and> axial_dispersion column = Some [333 / 100000000000])"
proof -
  obtain st where
    run: "run_module example_area echo_simulator ''__main__'' = Inr st"
    using run_module_main_ok [of echo_simulator example_area, OF echo_simulator_ok
        echo_simulator_ok echo_simulator_ok echo_simulator_ok echo_simulator_ok
        echo_simulator_ok echo_simulator_ok]
    by blast
  from final_dispersion_not_restored [OF run] run show ?thesis
    by simp
qed

text \<open>
  C10: the binding model is not kinetic, with adsorption rate [2.5] and desorption rate
  [1.0], so the equilibrium constant of the single species is 2.5; it is the binding
  model of the column, whose initial concentrations \<open>c\<close> and \<open>q\<close> are both [0.0]. The
  flow sheet has the one inlet, both events set the inlet's concentration, and
  \<open>pulse_start\<close> is the only event that sets a non-zero concentration: nothing else in
  the configured process introduces mass.
\<close>

theorem binding_equilibrium_and_empty_column:
  "is_kinetic binding_model = Some False
   \<and> adsorption_rate binding_model = Some [25 / 10]
   \<and> desorption_rate binding_model = Some [1]
   \<and> equilibrium_constants binding_model = Some [25 / 10]
   \<and> binding_model_attr column = Some binding_model
   \<and> c column = Some [0] \<and> q column = Some [0]
   \<and> units (flow_sheet_attr process) = [inlet_ref, column_ref, outlet_ref]
   \<and> map parameter_path (events process) = [''flow_sheet.inlet.c'', ''flow_sheet.inlet.c'']
   \<and> map event_name (filter (\<lambda>e. list_ex (\<lambda>x. x \<noteq> 0) (state e)) (events process))
       = [''pulse_start'']"
  by (simp add: binding_model_def Linear_init_def equilibrium_constants_def column_def Let_def
      GeneralRateModel_init_def set_axial_dispersion_def
      process_def Process_init_def add_event_def c_pulse_def c_initial_def
      flow_sheet_def FlowSheet_init_def add_unit_def add_connection_def)

end
